theory Spec2Isabelle
  imports Main
begin

section \<open>JavaScript values and objects\<close>

text \<open>
  The stores handle plain JavaScript objects: rows of the backend, and partial rows
  (\<open>Partial<Note>\<close>) given by the caller, which are spread into one another and tested with
  the \<open>in\<close> operator. An object is a finite map from property names to values; a key that is
  missing reads as \<open>undefined\<close>, and a key may also be present and hold \<open>undefined\<close>.
\<close>

datatype jsval = Undefined | Null | Str string | Arr "string list"

type_synonym jsobj = "string \<rightharpoonup> jsval"

text \<open>\<open>obj.k\<close>\<close>

definition get_prop :: "jsobj \<Rightarrow> string \<Rightarrow> jsval" where
  "get_prop obj k = (case obj k of None \<Rightarrow> Undefined | Some v \<Rightarrow> v)"

text \<open>Truthiness: \<open>undefined\<close>, \<open>null\<close> and the empty string are falsy; an array is truthy.\<close>

fun truthy :: "jsval \<Rightarrow> bool" where
  "truthy Undefined = False"
| "truthy Null = False"
| "truthy (Str s) = (s \<noteq> [])"
| "truthy (Arr xs) = True"

text \<open>\<open>v || d\<close>\<close>

definition or_else :: "jsval \<Rightarrow> jsval \<Rightarrow> jsval" where
  "or_else v d = (if truthy v then v else d)"

text \<open>
  \<open>a === b\<close>: equality of values for \<open>undefined\<close>, \<open>null\<close> and strings; two arrays are
  compared by reference, and the arrays the stores could compare come from different
  objects, so they are never equal.
\<close>

fun strict_eq :: "jsval \<Rightarrow> jsval \<Rightarrow> bool" where
  "strict_eq (Arr xs) (Arr ys) = False"
| "strict_eq a b = (a = b)"

text \<open>A value inside a template literal \<open>`...${v}...`\<close>.\<close>

fun join_comma :: "string list \<Rightarrow> string" where
  "join_comma [] = []"
| "join_comma [x] = x"
| "join_comma (x # y # ys) = x @ '','' @ join_comma (y # ys)"

fun template :: "jsval \<Rightarrow> string" where
  "template Undefined = ''undefined''"
| "template Null = ''null''"
| "template (Str s) = s"
| "template (Arr xs) = join_comma xs"

text \<open>A nullable string (\<open>string | null\<close>) used as a condition.\<close>

definition truthy_opt :: "string option \<Rightarrow> bool" where
  "truthy_opt v = (case v of None \<Rightarrow> False | Some s \<Rightarrow> s \<noteq> [])"

section \<open>Awaited calls, effects and the program monad\<close>

text \<open>
  Every \<open>await\<close> of the source either yields a value or throws; the exception is modelled
  by its message. A query of the gateway resolves to the \<open>{ data, error }\<close> object of the
  client library, which is either a success carrying the data or a failure carrying the
  error's message (and \<open>data = null\<close>).
\<close>

datatype 'a awaited = Resolves 'a | Rejects string

datatype 'a reply = Success 'a | Failure string

datatype query_mod =
    Eq string string
  | ILike string string
  | Order string bool
  | Limit nat
  | Single

record notification =
  userId :: jsval
  n_type :: string
  n_title :: string
  n_message :: string
  noteId :: jsval
  fromUserId :: "string option"

text \<open>What an operation does to the outside world, in the order it does it.\<close>

datatype effect =
    Select string string "query_mod list"
  | Insert string jsobj "query_mod list"
  | Update string jsobj "query_mod list"
  | Delete string "query_mod list"
  | GetUser
  | CreateNotification notification
  | ConsoleError string

record 's world =
  store :: 's
  effects :: "effect list"

text \<open>
  A program runs on the store's state and the log of effects, and either returns a value
  (\<open>Inr\<close>) or throws (\<open>Inl\<close>, the exception's message).
\<close>

type_synonym ('s, 'a) prog = "'s world \<Rightarrow> (string + 'a) \<times> 's world"

definition ret :: "'a \<Rightarrow> ('s, 'a) prog" where
  "ret x = (\<lambda>w. (Inr x, w))"

definition throw :: "string \<Rightarrow> ('s, 'a) prog" where
  "throw m = (\<lambda>w. (Inl m, w))"

definition bnd :: "('s, 'a) prog \<Rightarrow> ('a \<Rightarrow> ('s, 'b) prog) \<Rightarrow> ('s, 'b) prog" where
  "bnd p f = (\<lambda>w. case p w of (Inl e, w') \<Rightarrow> (Inl e, w') | (Inr x, w') \<Rightarrow> f x w')"

text \<open>\<open>try { p } catch (err) { h err }\<close>\<close>

definition try_catch :: "('s, 'a) prog \<Rightarrow> (string \<Rightarrow> ('s, 'a) prog) \<Rightarrow> ('s, 'a) prog" where
  "try_catch p h = (\<lambda>w. case p w of (Inl e, w') \<Rightarrow> h e w' | (Inr x, w') \<Rightarrow> (Inr x, w'))"

text \<open>zustand's \<open>set\<close> and \<open>get\<close>\<close>

definition set_store :: "('s \<Rightarrow> 's) \<Rightarrow> ('s, unit) prog" where
  "set_store f = (\<lambda>w. (Inr (), w\<lparr>store := f (store w)\<rparr>))"

definition get_store :: "('s, 's) prog" where
  "get_store = (\<lambda>w. (Inr (store w), w))"

definition emit :: "effect \<Rightarrow> ('s, unit) prog" where
  "emit e = (\<lambda>w. (Inr (), w\<lparr>effects := effects w @ [e]\<rparr>))"

text \<open>\<open>await call\<close>: the call is made, then its outcome is received.\<close>

definition await :: "effect \<Rightarrow> 'a awaited \<Rightarrow> ('s, 'a) prog" where
  "await e outcome =
     bnd (emit e) (\<lambda>_. case outcome of Resolves v \<Rightarrow> ret v | Rejects m \<Rightarrow> throw m)"

text \<open>Running an operation on a state with an empty log.\<close>

definition run :: "('s, 'a) prog \<Rightarrow> 's \<Rightarrow> (string + 'a) \<times> 's world" where
  "run p s = p \<lparr>store = s, effects = []\<rparr>"

section \<open>The chat store (\<open>src/store/chatStore.ts\<close>)\<close>

record chat_user =
  u_id :: string
  full_name :: string
  email :: string
  avatar_url :: "string option"

record chat_message =
  m_id :: string
  channel_id :: string
  user_id :: string
  content :: string
  message_type :: string
  code_language :: "string option"
  edited_at :: "string option"
  m_created_at :: string
  user :: "chat_user option"

record chat_channel =
  c_id :: string
  c_name :: string
  c_description :: "string option"
  c_type :: string
  c_created_by :: "string option"
  c_created_at :: string
  c_updated_at :: string

record chat_state =
  channels :: "chat_channel list"
  messages :: "chat_message list"
  currentChannel :: "chat_channel option"
  c_isLoading :: bool
  isLoadingMessages :: bool

text \<open>\<open>addMessage\<close>: the state is returned as it is when the identifier is already there.\<close>

definition addMessage :: "chat_message \<Rightarrow> chat_state \<Rightarrow> chat_state" where
  "addMessage message state =
     (if list_ex (\<lambda>m. m_id m = m_id message) (messages state) then state
      else state\<lparr>messages := messages state @ [message]\<rparr>)"

text \<open>
  The two handlers of \<open>subscribeToMessages\<close>. The insertion handler reads the row again by
  its identifier and merges it when it got one; when the read throws, the handler's
  promise rejects and the state is left as it was. The deletion handler filters the row out.
\<close>

definition on_insert :: "chat_message reply awaited \<Rightarrow> chat_state \<Rightarrow> chat_state" where
  "on_insert point_read state =
     (case point_read of
        Resolves (Success d) \<Rightarrow> addMessage d state
      | Resolves (Failure e) \<Rightarrow> state
      | Rejects e \<Rightarrow> state)"

definition on_delete :: "string \<Rightarrow> chat_state \<Rightarrow> chat_state" where
  "on_delete old_id state = state\<lparr>messages := filter (\<lambda>m. m_id m \<noteq> old_id) (messages state)\<rparr>"


text \<open>The state the store starts in.\<close>

definition initial_chat_state :: chat_state where
  "initial_chat_state =
     \<lparr>channels = [], messages = [], currentChannel = None, c_isLoading = False,
      isLoadingMessages = False\<rparr>"

text \<open>
  The seed message of demo mode. Its text is not ASCII in the source; it is given here by
  its UTF-8 bytes. The time of the message, one hour before the call, is read from the
  clock and is an argument.
\<close>

definition welcome_text :: string where
  "welcome_text =
     [char_of (194 :: nat), char_of (161 :: nat)] @ ''Bienvenidos al chat del equipo! ''
       @ [char_of (240 :: nat), char_of (159 :: nat), char_of (142 :: nat), char_of (137 :: nat)]"

definition demo_message :: "string \<Rightarrow> string \<Rightarrow> chat_message" where
  "demo_message channelId an_hour_ago =
     \<lparr>m_id = ''demo-msg-1'', channel_id = channelId, user_id = ''demo-user'',
      content = welcome_text, message_type = ''text'', code_language = None,
      edited_at = None, m_created_at = an_hour_ago,
      user = Some \<lparr>u_id = ''demo-user'', full_name = ''Sistema'',
                   email = ''system@kor4soft.com'', avatar_url = None\<rparr>\<rparr>"

definition messages_columns :: string where
  "messages_columns = ''*, user:profiles!chat_messages_user_id_fkey(id, full_name, email, avatar_url)''"

text \<open>
  \<open>fetchMessages\<close>. \<open>configured\<close> stands for \<open>isSupabaseConfigured && supabase\<close>, and
  \<open>outcome\<close> is what the awaited query gives.
\<close>

definition fetchMessages ::
  "bool \<Rightarrow> string \<Rightarrow> string \<Rightarrow> chat_message list reply awaited \<Rightarrow> (chat_state, unit) prog" where
  "fetchMessages configured channelId an_hour_ago outcome =
     (if \<not> configured then
        set_store (\<lambda>s. s\<lparr>messages := [demo_message channelId an_hour_ago],
                           isLoadingMessages := False\<rparr>)
      else
        bnd (set_store (\<lambda>s. s\<lparr>isLoadingMessages := True\<rparr>)) (\<lambda>_.
        try_catch
          (bnd (await (Select ''chat_messages'' messages_columns
                        [Eq ''channel_id'' channelId, Order ''created_at'' True, Limit 100])
                      outcome) (\<lambda>r.
           case r of
             Failure e \<Rightarrow> throw e
           | Success d \<Rightarrow> set_store (\<lambda>s. s\<lparr>messages := d, isLoadingMessages := False\<rparr>)))
          (\<lambda>err.
           bnd (emit (ConsoleError ''Error fetching messages:'')) (\<lambda>_.
           set_store (\<lambda>s. s\<lparr>isLoadingMessages := False\<rparr>)))))"

text \<open>An optional string argument or property, as a JavaScript value.\<close>

definition js_of_opt :: "string option \<Rightarrow> jsval" where
  "js_of_opt v = (case v of None \<Rightarrow> Undefined | Some s \<Rightarrow> Str s)"

text \<open>
  \<open>createChannel\<close>. The third argument has the default \<open>'public'\<close>. \<open>usr\<close> is the outcome
  of \<open>supabase.auth.getUser()\<close>, reduced to the identifier of the user (or none), and \<open>ins\<close>
  the outcome of the insertion. The result is the \<open>error\<close> field of the returned object.
\<close>

definition createChannel ::
  "bool \<Rightarrow> string \<Rightarrow> string option \<Rightarrow> string option \<Rightarrow> string option awaited \<Rightarrow>
   chat_channel reply awaited \<Rightarrow> (chat_state, string option) prog" where
  "createChannel configured name description type_arg usr ins =
     (let type = (case type_arg of None \<Rightarrow> ''public'' | Some t \<Rightarrow> t) in
      if \<not> configured then ret None
      else
        try_catch
          (bnd (await GetUser usr) (\<lambda>user_id.
           bnd (await (Insert ''chat_channels''
                        [''name'' \<mapsto> Str name, ''description'' \<mapsto> js_of_opt description,
                         ''type'' \<mapsto> Str type, ''created_by'' \<mapsto> js_of_opt user_id]
                        [Single])
                      ins) (\<lambda>r.
           case r of
             Failure e \<Rightarrow> ret (Some e)
           | Success d \<Rightarrow>
               bnd (set_store (\<lambda>state. state\<lparr>channels := channels state @ [d]\<rparr>)) (\<lambda>_.
               ret None))))
          (\<lambda>err. ret (Some err)))"

text \<open>
  \<open>subscribeToMessages\<close>. The realtime client is the list of the topics of its channels.
  In demo mode nothing is opened and the teardown is the empty function; otherwise a
  channel is opened, the flag \<open>isSubscribed\<close> starts false, each status the client reports
  sets it, and the teardown reads it.
\<close>

type_synonym realtime = "string list"

datatype subscribe_status = SUBSCRIBED | TIMED_OUT | CLOSED | CHANNEL_ERROR

record subscription =
  topic :: string
  isSubscribed :: bool

definition removeChannel :: "string \<Rightarrow> realtime \<Rightarrow> realtime" where
  "removeChannel t rt = filter (\<lambda>c. c \<noteq> t) rt"

definition subscribeToMessages ::
  "bool \<Rightarrow> string \<Rightarrow> realtime \<Rightarrow> subscription option \<times> realtime" where
  "subscribeToMessages configured channelId rt =
     (if \<not> configured then (None, rt)
      else (Some \<lparr>topic = ''chat-messages-'' @ channelId, isSubscribed = False\<rparr>,
            rt @ [''chat-messages-'' @ channelId]))"

definition on_status :: "subscribe_status \<Rightarrow> subscription option \<Rightarrow> subscription option" where
  "on_status status sub = map_option (\<lambda>h. h\<lparr>isSubscribed := (status = SUBSCRIBED)\<rparr>) sub"

definition teardown :: "subscription option \<Rightarrow> realtime \<Rightarrow> realtime" where
  "teardown sub rt =
     (case sub of
        None \<Rightarrow> rt
      | Some h \<Rightarrow> if isSubscribed h then removeChannel (topic h) rt else rt)"

text \<open>
  A whole life of a subscription: opened, then the statuses the client reports in their
  order, then the teardown.
\<close>

definition subscription_life :: "bool \<Rightarrow> string \<Rightarrow> subscribe_status list \<Rightarrow> realtime \<Rightarrow> realtime" where
  "subscription_life configured channelId statuses rt =
     (case subscribeToMessages configured channelId rt of
        (sub, rt') \<Rightarrow> teardown (fold on_status statuses sub) rt')"

section \<open>The notes store (\<open>notesStore\<close>)\<close>

record notes_filter =
  f_type :: "string option"
  f_status :: "string option"
  f_priority :: "string option"
  f_search :: string

record notes_state =
  "notes" :: "jsobj list"
  isLoading :: bool
  selectedNote :: "jsobj option"
  filter_state :: notes_filter

text \<open>The state the store starts in.\<close>

definition initial_notes_state :: notes_state where
  "initial_notes_state =
     \<lparr>notes = [], isLoading = False, selectedNote = None,
      filter_state = \<lparr>f_type = None, f_status = None, f_priority = None, f_search = []\<rparr>\<rparr>"

text \<open>What \<open>generateId()\<close> and the two readings of the clock give to a demo creation.\<close>

record fresh =
  generated_id :: string
  created_now :: string
  updated_now :: string

text \<open>\<open>if (filter.k) query = query.eq(k, filter.k)\<close>\<close>

definition eq_mod :: "string \<Rightarrow> string option \<Rightarrow> query_mod list" where
  "eq_mod col v = (case v of None \<Rightarrow> [] | Some x \<Rightarrow> if x \<noteq> [] then [Eq col x] else [])"

definition notes_query :: "notes_filter \<Rightarrow> query_mod list" where
  "notes_query f =
     [Order ''created_at'' False]
     @ eq_mod ''type'' (f_type f)
     @ eq_mod ''status'' (f_status f)
     @ eq_mod ''priority'' (f_priority f)
     @ (if f_search f \<noteq> [] then [ILike ''title'' (''%'' @ f_search f @ ''%'')] else [])"

definition fetchNotes :: "bool \<Rightarrow> jsobj list reply awaited \<Rightarrow> (notes_state, unit) prog" where
  "fetchNotes configured outcome =
     (if \<not> configured then set_store (\<lambda>s. s\<lparr>isLoading := False\<rparr>)
      else
        bnd (set_store (\<lambda>s. s\<lparr>isLoading := True\<rparr>)) (\<lambda>_.
        try_catch
          (bnd get_store (\<lambda>s.
           bnd (await (Select ''notes'' ''*'' (notes_query (filter_state s))) outcome) (\<lambda>r.
           case r of
             Failure e \<Rightarrow> throw e
           | Success d \<Rightarrow> set_store (\<lambda>s. s\<lparr>notes := d, isLoading := False\<rparr>))))
          (\<lambda>err.
           bnd (emit (ConsoleError ''Error fetching notes:'')) (\<lambda>_.
           set_store (\<lambda>s. s\<lparr>isLoading := False\<rparr>)))))"

text \<open>The note that demo mode builds from the caller's partial note.\<close>

definition demo_note :: "fresh \<Rightarrow> jsobj \<Rightarrow> jsobj" where
  "demo_note fr note =
     [''id'' \<mapsto> Str (generated_id fr),
      ''title'' \<mapsto> or_else (get_prop note ''title'') (Str []),
      ''content'' \<mapsto> or_else (get_prop note ''content'') (Str []),
      ''type'' \<mapsto> or_else (get_prop note ''type'') (Str ''note''),
      ''status'' \<mapsto> or_else (get_prop note ''status'') (Str ''pending''),
      ''priority'' \<mapsto> or_else (get_prop note ''priority'') (Str ''medium''),
      ''project'' \<mapsto> get_prop note ''project'',
      ''created_by'' \<mapsto> or_else (get_prop note ''created_by'') (Str ''demo-user''),
      ''created_at'' \<mapsto> Str (created_now fr),
      ''updated_at'' \<mapsto> Str (updated_now fr),
      ''tags'' \<mapsto> or_else (get_prop note ''tags'') (Arr [])]"

text \<open>\<open>cleanedNote\<close> of \<open>createNote\<close>: the three relational fields are always set.\<close>

definition cleanedNote :: "jsobj \<Rightarrow> jsobj" where
  "cleanedNote note =
     note(''assigned_to'' \<mapsto> or_else (get_prop note ''assigned_to'') Null,
          ''parent_id'' \<mapsto> or_else (get_prop note ''parent_id'') Null,
          ''project'' \<mapsto> or_else (get_prop note ''project'') Null)"

definition assignment_message :: "jsobj \<Rightarrow> string" where
  "assignment_message d =
     ''Te han asignado la tarea '' @ [CHR 0x22] @ template (get_prop d ''title'') @ [CHR 0x22]"

text \<open>
  \<open>createNote\<close>. \<open>ins\<close> is the outcome of the insertion, \<open>usr\<close> of
  \<open>supabase.auth.getUser()\<close> (the identifier of the user, or none) and \<open>ntf\<close> of
  \<open>createNotification\<close>, whose body is in \<open>lib/supabase\<close>: its outcome is an argument, and
  the value it resolves to, of a type the store does not look at, is dropped.
\<close>

definition createNote ::
  "bool \<Rightarrow> fresh \<Rightarrow> jsobj \<Rightarrow> jsobj reply awaited \<Rightarrow> string option awaited \<Rightarrow> 'r awaited \<Rightarrow>
   (notes_state, string option) prog" where
  "createNote configured fr note ins usr ntf =
     (if \<not> configured then
        bnd (set_store (\<lambda>state. state\<lparr>notes := demo_note fr note # notes state\<rparr>)) (\<lambda>_.
        ret None)
      else
        try_catch
          (bnd (await (Insert ''notes'' (cleanedNote note) [Single]) ins) (\<lambda>r.
           case r of
             Failure e \<Rightarrow> ret (Some e)
           | Success d \<Rightarrow>
               bnd (if truthy (get_prop (cleanedNote note) ''assigned_to'')
                       \<and> \<not> strict_eq (get_prop (cleanedNote note) ''assigned_to'')
                                      (get_prop (cleanedNote note) ''created_by'')
                    then
                      bnd (await GetUser usr) (\<lambda>currentUser.
                      bnd (await (CreateNotification
                                    \<lparr>userId = get_prop (cleanedNote note) ''assigned_to'',
                                     n_type = ''assignment'',
                                     n_title = ''Nueva tarea asignada'',
                                     n_message = assignment_message d,
                                     noteId = get_prop d ''id'',
                                     fromUserId = currentUser\<rparr>) ntf) (\<lambda>_.
                      ret ()))
                    else ret ()) (\<lambda>_.
               bnd (set_store (\<lambda>state. state\<lparr>notes := d # notes state\<rparr>)) (\<lambda>_.
               ret None))))
          (\<lambda>err. ret (Some err)))"

text \<open>\<open>n.id === id\<close> and \<open>state.selectedNote?.id === id\<close>\<close>

definition has_id :: "string \<Rightarrow> jsobj \<Rightarrow> bool" where
  "has_id i n = strict_eq (get_prop n ''id'') (Str i)"

definition selected_is :: "string \<Rightarrow> notes_state \<Rightarrow> bool" where
  "selected_is i state = (case selectedNote state of None \<Rightarrow> False | Some n \<Rightarrow> has_id i n)"

text \<open>
  \<open>cleanedUpdates\<close> of \<open>updateNote\<close>: the timestamp is refreshed, and a relational field
  is cleaned only when it is a key of \<open>updates\<close>.
\<close>

definition clean_field :: "jsobj \<Rightarrow> string \<Rightarrow> jsobj \<Rightarrow> jsobj" where
  "clean_field updates k c =
     (if updates k \<noteq> None then c(k \<mapsto> or_else (get_prop updates k) Null) else c)"

definition cleanedUpdates :: "string \<Rightarrow> jsobj \<Rightarrow> jsobj" where
  "cleanedUpdates now updates =
     clean_field updates ''project''
       (clean_field updates ''parent_id''
         (clean_field updates ''assigned_to'' (updates(''updated_at'' \<mapsto> Str now))))"

text \<open>\<open>currentNote?.assigned_to\<close>, where \<open>currentNote\<close> is the \<open>data\<close> of the first read.\<close>

definition stored_assignee :: "jsobj reply \<Rightarrow> jsval" where
  "stored_assignee cur = (case cur of Success n \<Rightarrow> get_prop n ''assigned_to'' | Failure e \<Rightarrow> Undefined)"

definition updateNote ::
  "bool \<Rightarrow> string \<Rightarrow> string \<Rightarrow> jsobj \<Rightarrow> jsobj reply awaited \<Rightarrow> jsobj reply awaited \<Rightarrow>
   string option awaited \<Rightarrow> 'r awaited \<Rightarrow> (notes_state, string option) prog" where
  "updateNote configured now i updates pre upd usr ntf =
     (if \<not> configured then
        bnd (set_store (\<lambda>state. state
               \<lparr>notes := map (\<lambda>n. if has_id i n then (n ++ updates)(''updated_at'' \<mapsto> Str now) else n)
                              (notes state),
                selectedNote := (case selectedNote state of
                                   None \<Rightarrow> None
                                 | Some sel \<Rightarrow> if has_id i sel then Some (sel ++ updates)
                                              else Some sel)\<rparr>)) (\<lambda>_.
        ret None)
      else
        try_catch
          (bnd (await (Select ''notes'' ''assigned_to, title'' [Eq ''id'' i, Single]) pre) (\<lambda>currentNote.
           bnd (await (Update ''notes'' (cleanedUpdates now updates) [Eq ''id'' i, Single]) upd) (\<lambda>r.
           case r of
             Failure e \<Rightarrow> ret (Some e)
           | Success d \<Rightarrow>
               bnd (if truthy (get_prop (cleanedUpdates now updates) ''assigned_to'')
                       \<and> \<not> strict_eq (get_prop (cleanedUpdates now updates) ''assigned_to'')
                                      (stored_assignee currentNote)
                    then
                      bnd (await GetUser usr) (\<lambda>currentUser.
                      bnd (await (CreateNotification
                                    \<lparr>userId = get_prop (cleanedUpdates now updates) ''assigned_to'',
                                     n_type = ''assignment'',
                                     n_title = ''Tarea asignada'',
                                     n_message = assignment_message d,
                                     noteId = Str i,
                                     fromUserId = currentUser\<rparr>) ntf) (\<lambda>_.
                      ret ()))
                    else ret ()) (\<lambda>_.
               bnd (set_store (\<lambda>state. state
                      \<lparr>notes := map (\<lambda>n. if has_id i n then d else n) (notes state),
                       selectedNote := (if selected_is i state then Some d
                                        else selectedNote state)\<rparr>)) (\<lambda>_.
               ret None)))))
          (\<lambda>err. ret (Some err)))"

text \<open>What both modes of \<open>deleteNote\<close> do to the state.\<close>

definition drop_note :: "string \<Rightarrow> notes_state \<Rightarrow> notes_state" where
  "drop_note i state =
     state\<lparr>notes := filter (\<lambda>n. \<not> has_id i n) (notes state),
           selectedNote := (if selected_is i state then None else selectedNote state)\<rparr>"

definition deleteNote :: "bool \<Rightarrow> string \<Rightarrow> unit reply awaited \<Rightarrow> (notes_state, string option) prog" where
  "deleteNote configured i del =
     (if \<not> configured then bnd (set_store (drop_note i)) (\<lambda>_. ret None)
      else
        try_catch
          (bnd (await (Delete ''notes'' [Eq ''id'' i]) del) (\<lambda>r.
           case r of
             Failure e \<Rightarrow> ret (Some e)
           | Success u \<Rightarrow> bnd (set_store (drop_note i)) (\<lambda>_. ret None)))
          (\<lambda>err. ret (Some err)))"

section \<open>The personal notes store (\<open>src/store/personalNotesStore.ts\<close>)\<close>

record personal_note =
  pn_id :: string
  pn_title :: string
  pn_content :: "string option"
  owner_id :: "string option"
  is_shared :: bool
  pn_created_at :: string
  pn_updated_at :: string

record personal_state =
  pnotes :: "personal_note list"
  sharedWithMe :: "personal_note list"
  p_isLoading :: bool

text \<open>The state the store starts in.\<close>

definition initial_personal_state :: personal_state where
  "initial_personal_state = \<lparr>pnotes = [], sharedWithMe = [], p_isLoading = False\<rparr>"

text \<open>The object \<open>{ error, note? }\<close> that \<open>createNote\<close> returns.\<close>

record create_result =
  cr_error :: "string option"
  cr_note :: "personal_note option"

definition demo_personal_note :: "fresh \<Rightarrow> string \<Rightarrow> string \<Rightarrow> personal_note" where
  "demo_personal_note fr title content_arg =
     \<lparr>pn_id = generated_id fr, pn_title = title, pn_content = Some content_arg,
      owner_id = Some ''demo-user'', is_shared = False,
      pn_created_at = created_now fr, pn_updated_at = updated_now fr\<rparr>"

text \<open>\<open>createNote(title, content = '')\<close> of the personal notes.\<close>

definition createPersonalNote ::
  "bool \<Rightarrow> fresh \<Rightarrow> string \<Rightarrow> string option \<Rightarrow> string option awaited \<Rightarrow>
   personal_note reply awaited \<Rightarrow> (personal_state, create_result) prog" where
  "createPersonalNote configured fr title content_opt usr ins =
     (let content_arg = (case content_opt of None \<Rightarrow> [] | Some c \<Rightarrow> c) in
      if \<not> configured then
        bnd (set_store (\<lambda>state.
               state\<lparr>pnotes := demo_personal_note fr title content_arg # pnotes state\<rparr>)) (\<lambda>_.
        ret \<lparr>cr_error = None, cr_note = Some (demo_personal_note fr title content_arg)\<rparr>)
      else
        try_catch
          (bnd (await GetUser usr) (\<lambda>userId.
           bnd (await (Insert ''personal_notes''
                        [''title'' \<mapsto> Str title, ''content'' \<mapsto> Str content_arg,
                         ''owner_id'' \<mapsto> js_of_opt userId]
                        [Single])
                      ins) (\<lambda>r.
           case r of
             Failure e \<Rightarrow> ret \<lparr>cr_error = Some e, cr_note = None\<rparr>
           | Success d \<Rightarrow>
               bnd (set_store (\<lambda>state. state\<lparr>pnotes := d # pnotes state\<rparr>)) (\<lambda>_.
               ret \<lparr>cr_error = None, cr_note = Some d\<rparr>))))
          (\<lambda>err. ret \<lparr>cr_error = Some err, cr_note = None\<rparr>))"

text \<open>\<open>deleteNote\<close> of the personal notes: only \<open>notes\<close> is filtered.\<close>

definition deletePersonalNote ::
  "bool \<Rightarrow> string \<Rightarrow> unit reply awaited \<Rightarrow> (personal_state, string option) prog" where
  "deletePersonalNote configured i del =
     (if \<not> configured then
        bnd (set_store (\<lambda>state. state\<lparr>pnotes := filter (\<lambda>n. pn_id n \<noteq> i) (pnotes state)\<rparr>)) (\<lambda>_.
        ret None)
      else
        try_catch
          (bnd (await (Delete ''personal_notes'' [Eq ''id'' i]) del) (\<lambda>r.
           case r of
             Failure e \<Rightarrow> ret (Some e)
           | Success u \<Rightarrow>
               bnd (set_store (\<lambda>state.
                      state\<lparr>pnotes := filter (\<lambda>n. pn_id n \<noteq> i) (pnotes state)\<rparr>)) (\<lambda>_.
               ret None)))
          (\<lambda>err. ret (Some err)))"

text \<open>
  \<open>getShares\<close>. The rows are of the type \<open>PersonalNoteShare\<close>, a type parameter here.
  \<open>data || []\<close> is the list of rows of a success and the empty list of a failure, whose
  \<open>data\<close> is \<open>null\<close>.
\<close>

definition shares_columns :: string where
  "shares_columns = ''*, user:profiles!shared_with(id, full_name, email, avatar_url)''"

definition getShares :: "bool \<Rightarrow> string \<Rightarrow> 'r list reply awaited \<Rightarrow> ('s, 'r list) prog" where
  "getShares configured noteId_arg outcome =
     (if \<not> configured then ret []
      else
        try_catch
          (bnd (await (Select ''personal_note_shares'' shares_columns [Eq ''note_id'' noteId_arg])
                      outcome) (\<lambda>r.
           case r of Success d \<Rightarrow> ret d | Failure e \<Rightarrow> ret []))
          (\<lambda>err. ret []))"

section \<open>Client-side filters\<close>

subsection \<open>Strings\<close>

text \<open>
  \<open>toLowerCase\<close> on the letters of ASCII (a string is its bytes here, and the bytes of
  other letters are left as they are), \<open>includes\<close> and \<open>trim\<close>.
\<close>

definition lower_char :: "char \<Rightarrow> char" where
  "lower_char c =
     (let n = (of_char c :: nat) in if 65 \<le> n \<and> n \<le> 90 then char_of (n + 32) else c)"

definition toLowerCase :: "string \<Rightarrow> string" where
  "toLowerCase s = map lower_char s"

fun str_includes :: "string \<Rightarrow> string \<Rightarrow> bool" where
  "str_includes [] sub = (sub = [])"
| "str_includes (c # cs) sub = (take (length sub) (c # cs) = sub \<or> str_includes cs sub)"

definition is_space :: "char \<Rightarrow> bool" where
  "is_space c = ((of_char c :: nat) \<in> {9, 10, 11, 12, 13, 32})"

definition trim :: "string \<Rightarrow> string" where
  "trim s = rev (dropWhile is_space (rev (dropWhile is_space s)))"

text \<open>\<open>v?.toLowerCase().includes(q)\<close>, which is \<open>undefined\<close>, so falsy, when \<open>v\<close> is missing.\<close>

definition opt_includes :: "string option \<Rightarrow> string \<Rightarrow> bool" where
  "opt_includes v q = (case v of None \<Rightarrow> False | Some x \<Rightarrow> str_includes (toLowerCase x) q)"

subsection \<open>Dates (\<open>date-fns\<close>)\<close>

text \<open>
  A \<open>Date\<close> in local time, by its calendar fields and the milliseconds since midnight.
  \<open>parseISO\<close> is modelled on the calendar dates \<open>YYYY-MM-DD\<close>, the form in which
  \<open>expense_date\<close> is written; \<open>None\<close> is the invalid date. \<open>isWithinInterval\<close> is false
  of an invalid date. It throws when the start is after the end, which the start and
  the end of one month are not.
\<close>

record cal_date =
  year :: nat
  month :: nat
  day :: nat
  ms :: nat

definition leap_year :: "nat \<Rightarrow> bool" where
  "leap_year y = ((y mod 4 = 0 \<and> y mod 100 \<noteq> 0) \<or> y mod 400 = 0)"

definition days_in_month :: "nat \<Rightarrow> nat \<Rightarrow> nat" where
  "days_in_month y m =
     (if m = 2 then (if leap_year y then 29 else 28)
      else if m = 4 \<or> m = 6 \<or> m = 9 \<or> m = 11 then 30 else 31)"

definition digit_val :: "char \<Rightarrow> nat option" where
  "digit_val c =
     (let n = (of_char c :: nat) in if 48 \<le> n \<and> n \<le> 57 then Some (n - 48) else None)"

fun number :: "nat \<Rightarrow> string \<Rightarrow> nat option" where
  "number acc [] = Some acc"
| "number acc (c # cs) =
     (case digit_val c of None \<Rightarrow> None | Some d \<Rightarrow> number (10 * acc + d) cs)"

definition parseISO :: "string \<Rightarrow> cal_date option" where
  "parseISO s =
     (if length s = 10 \<and> s ! 4 = CHR ''-'' \<and> s ! 7 = CHR ''-'' then
        (case (number 0 (take 4 s), number 0 (take 2 (drop 5 s)), number 0 (drop 8 s)) of
           (Some y, Some m, Some d) \<Rightarrow>
             if 1 \<le> m \<and> m \<le> 12 \<and> 1 \<le> d \<and> d \<le> days_in_month y m
             then Some \<lparr>year = y, month = m, day = d, ms = 0\<rparr>
             else None
         | _ \<Rightarrow> None)
      else None)"

definition startOfMonth :: "cal_date \<Rightarrow> cal_date" where
  "startOfMonth d = d\<lparr>day := 1, ms := 0\<rparr>"

definition endOfMonth :: "cal_date \<Rightarrow> cal_date" where
  "endOfMonth d = d\<lparr>day := days_in_month (year d) (month d), ms := 86399999\<rparr>"

definition date_le :: "cal_date \<Rightarrow> cal_date \<Rightarrow> bool" where
  "date_le a b =
     (year a < year b \<or> (year a = year b \<and>
       (month a < month b \<or> (month a = month b \<and>
         (day a < day b \<or> (day a = day b \<and> ms a \<le> ms b))))))"

definition isWithinInterval :: "cal_date option \<Rightarrow> cal_date \<Rightarrow> cal_date \<Rightarrow> bool" where
  "isWithinInterval d start_d end_d =
     (case d of None \<Rightarrow> False | Some x \<Rightarrow> date_le start_d x \<and> date_le x end_d)"

subsection \<open>The filter of the expenses page (\<open>src/pages/Expenses.tsx\<close>)\<close>

record expense =
  e_id :: string
  e_description :: string
  e_vendor :: "string option"
  e_category_id :: "string option"
  e_status :: string
  expense_date :: string
  e_amount :: int

datatype date_filter = All | Month | Custom

record expense_filter =
  searchTerm :: string
  categoryFilter :: "string option"
  statusFilter :: "string option"
  dateFilter :: date_filter

text \<open>The filter state the page starts in: the current month.\<close>

definition initial_expense_filter :: expense_filter where
  "initial_expense_filter =
     \<lparr>searchTerm = [], categoryFilter = None, statusFilter = None, dateFilter = Month\<rparr>"

text \<open>
  The callback of \<open>expenses.filter\<close>. \<open>now\<close> is what \<open>new Date()\<close> reads; the filter runs
  without suspension, and every reading of one evaluation is taken to be the same.
\<close>

definition keeps_expense :: "cal_date \<Rightarrow> expense_filter \<Rightarrow> expense \<Rightarrow> bool" where
  "keeps_expense now f e =
     (if searchTerm f \<noteq> []
         \<and> \<not> str_includes (toLowerCase (e_description e)) (toLowerCase (searchTerm f))
         \<and> \<not> opt_includes (e_vendor e) (toLowerCase (searchTerm f))
      then False
      else if truthy_opt (categoryFilter f) \<and> e_category_id e \<noteq> categoryFilter f then False
      else if truthy_opt (statusFilter f) \<and> Some (e_status e) \<noteq> statusFilter f then False
      else if dateFilter f = Month
              \<and> \<not> isWithinInterval (parseISO (expense_date e)) (startOfMonth now) (endOfMonth now)
      then False
      else True)"

definition filteredExpenses :: "cal_date \<Rightarrow> expense list \<Rightarrow> expense_filter \<Rightarrow> expense list" where
  "filteredExpenses now expenses f = filter (keeps_expense now f) expenses"

subsection \<open>The global search (\<open>src/components/GlobalSearch.tsx\<close>)\<close>

text \<open>The rows of the four stores, with the fields the search reads, at their declared types.\<close>

record note_row =
  nr_id :: string
  nr_title :: string
  nr_content :: "string option"
  nr_type :: string

record meeting_row =
  mt_id :: string
  mt_title :: string
  mt_description :: "string option"
  mt_status :: string

record member_row =
  mb_id :: string
  mb_full_name :: "string option"
  mb_email :: "string option"

record search_result =
  r_id :: string
  r_title :: "string option"
  r_subtitle :: "string option"
  r_type :: string
  r_path :: string

definition note_result :: "note_row \<Rightarrow> search_result" where
  "note_result note =
     \<lparr>r_id = nr_id note, r_title = Some (nr_title note),
      r_subtitle = Some (if nr_type note = ''task'' then ''Tarea''
                         else if nr_type note = ''bug'' then ''Bug''
                         else if nr_type note = ''feature'' then ''Feature'' else ''Nota''),
      r_type = nr_type note, r_path = ''/notes/'' @ nr_id note\<rparr>"

definition notepad_result :: "personal_note \<Rightarrow> search_result" where
  "notepad_result note =
     \<lparr>r_id = pn_id note, r_title = Some (pn_title note), r_subtitle = Some ''Notepad Personal'',
      r_type = ''notepad'', r_path = ''/notepad''\<rparr>"

text \<open>The subtitle of a meeting starts with \<open>Reuni\<close>, the two bytes of an accented o, \<open>n\<close>.\<close>

definition meeting_result :: "meeting_row \<Rightarrow> search_result" where
  "meeting_result meeting =
     \<lparr>r_id = mt_id meeting, r_title = Some (mt_title meeting),
      r_subtitle = Some (''Reuni'' @ [char_of (195 :: nat), char_of (179 :: nat)] @ ''n - ''
                         @ (if mt_status meeting = ''scheduled'' then ''Programada''
                            else if mt_status meeting = ''in_progress'' then ''En curso''
                            else ''Finalizada'')),
      r_type = ''meeting'', r_path = ''/meetings''\<rparr>"

definition member_result :: "member_row \<Rightarrow> search_result" where
  "member_result member =
     \<lparr>r_id = mb_id member,
      r_title = (if truthy_opt (mb_full_name member) then mb_full_name member else mb_email member),
      r_subtitle = mb_email member, r_type = ''user'', r_path = ''/team''\<rparr>"

text \<open>\<open>xs.forEach(x => { if (hit x) searchResults.push(result x) })\<close>\<close>

definition push_hits :: "('a \<Rightarrow> bool) \<Rightarrow> ('a \<Rightarrow> search_result) \<Rightarrow> 'a list \<Rightarrow>
    search_result list \<Rightarrow> search_result list" where
  "push_hits hit result xs searchResults =
     fold (\<lambda>x acc. if hit x then acc @ [result x] else acc) xs searchResults"

text \<open>\<open>performSearch\<close>: the list it gives to \<open>setResults\<close>.\<close>

definition performSearch ::
  "note_row list \<Rightarrow> personal_note list \<Rightarrow> meeting_row list \<Rightarrow> member_row list \<Rightarrow> string \<Rightarrow>
   search_result list" where
  "performSearch notes_arg personalNotes meetings members searchQuery =
     (if trim searchQuery = [] then []
      else
        let q = toLowerCase searchQuery;
            r1 = push_hits (\<lambda>note. str_includes (toLowerCase (nr_title note)) q
                                   \<or> opt_includes (nr_content note) q)
                   note_result notes_arg [];
            r2 = push_hits (\<lambda>note. str_includes (toLowerCase (pn_title note)) q
                                   \<or> opt_includes (pn_content note) q)
                   notepad_result personalNotes r1;
            r3 = push_hits (\<lambda>meeting. str_includes (toLowerCase (mt_title meeting)) q
                                      \<or> opt_includes (mt_description meeting) q)
                   meeting_result meetings r2;
            r4 = push_hits (\<lambda>member. opt_includes (mb_full_name member) q
                                     \<or> opt_includes (mb_email member) q)
                   member_result members r3
        in take 10 r4)"

section \<open>Notions of the statements\<close>

text \<open>A read of the gateway fails: the call throws, or it resolves to an error.\<close>

definition failed :: "'a reply awaited \<Rightarrow> bool" where
  "failed outcome =
     (case outcome of
        Rejects m \<Rightarrow> True
      | Resolves (Failure e) \<Rightarrow> True
      | Resolves (Success d) \<Rightarrow> False)"


fun submitted :: "effect list \<Rightarrow> jsobj list" where
  "submitted [] = []"
| "submitted (Insert t row qs # es) = row # submitted es"
| "submitted (Update t row qs # es) = row # submitted es"
| "submitted (e # es) = submitted es"

text \<open>The optional relational fields of a note, and a field left blank.\<close>

definition relational_fields :: "string list" where
  "relational_fields = [''assigned_to'', ''parent_id'', ''project'']"

definition blank :: "jsval \<Rightarrow> bool" where
  "blank v = (v = Undefined \<or> v = Null \<or> v = Str [])"

text \<open>Two readings of the clock in the same month.\<close>

definition same_month :: "cal_date \<Rightarrow> cal_date \<Rightarrow> bool" where
  "same_month a b = (year a = year b \<and> month a = month b)"

section \<open>The program monad\<close>

lemmas prog_defs = ret_def throw_def bnd_def try_catch_def set_store_def get_store_def
  emit_def await_def run_def

section \<open>The reconciler's merge\<close>

lemma addMessage_present:
  "list_ex (\<lambda>m. m_id m = m_id message) (messages state) \<Longrightarrow> addMessage message state = state"
  by (simp add: addMessage_def)

lemma addMessage_has_id:
  "list_ex (\<lambda>m. m_id m = m_id message) (messages (addMessage message state))"
  by (simp add: addMessage_def list_ex_iff)

lemma addMessage_twice: "addMessage message (addMessage message state) = addMessage message state"
  by (rule addMessage_present) (rule addMessage_has_id)

lemma addMessage_distinct:
  "distinct (map m_id (messages state)) \<Longrightarrow>
   distinct (map m_id (messages (addMessage message state)))"
  by (auto simp: addMessage_def list_ex_iff)

lemma on_insert_twice: "on_insert r (on_insert r state) = on_insert r state"
  by (simp add: on_insert_def addMessage_twice split: awaited.splits reply.splits)

text \<open>
  C1. The merge of the reconciler: when an entry with the identifier of the incoming
  message is in the cache, \<open>addMessage\<close> returns the state as it is; merging the same
  message twice, or handling the same insertion event twice, gives the state of doing it
  once; and a cache whose identifiers are distinct stays so, the first entry being kept.
\<close>

theorem addMessage_first_writer_wins:
  "(list_ex (\<lambda>m. m_id m = m_id message) (messages state) \<longrightarrow> addMessage message state = state)
   \<and> addMessage message (addMessage message state) = addMessage message state
   \<and> on_insert r (on_insert r state) = on_insert r state
   \<and> (distinct (map m_id (messages state)) \<longrightarrow>
        distinct (map m_id (messages (addMessage message state))))
   \<and> (\<forall>m \<in> set (messages state). m_id m = m_id message \<longrightarrow>
        m \<in> set (messages (addMessage message state))
        \<and> length (messages (addMessage message state)) = length (messages state))"
  using addMessage_present [of message state] addMessage_twice [of message state]
    on_insert_twice [of r state] addMessage_distinct [of state message]
  by (auto simp: addMessage_def list_ex_iff)

theorem addMessage_first_writer_wins_witness:
  "list_ex (\<lambda>m. m_id m = m_id (demo_message ''general'' ''09:00''))
     (messages \<lparr>channels = [], messages = [demo_message ''general'' ''09:00''],
                currentChannel = None, c_isLoading = False, isLoadingMessages = False\<rparr>)
   \<and> addMessage (demo_message ''general'' ''09:00'')
        \<lparr>channels = [], messages = [demo_message ''general'' ''09:00''],
         currentChannel = None, c_isLoading = False, isLoadingMessages = False\<rparr>
      = \<lparr>channels = [], messages = [demo_message ''general'' ''09:00''],
         currentChannel = None, c_isLoading = False, isLoadingMessages = False\<rparr>
   \<and> distinct (map m_id (messages
        \<lparr>channels = [], messages = [demo_message ''general'' ''09:00''],
         currentChannel = None, c_isLoading = False, isLoadingMessages = False\<rparr>))
   \<and> distinct (map m_id (messages (addMessage (demo_message ''general'' ''09:00'')
        \<lparr>channels = [], messages = [demo_message ''general'' ''09:00''],
         currentChannel = None, c_isLoading = False, isLoadingMessages = False\<rparr>)))"
  using addMessage_first_writer_wins
    [of "demo_message ''general'' ''09:00''"
        "\<lparr>channels = [], messages = [demo_message ''general'' ''09:00''],
          currentChannel = None, c_isLoading = False, isLoadingMessages = False\<rparr>"
        "Resolves (Success (demo_message ''general'' ''09:00''))"]
  by simp

section \<open>Fetching\<close>

lemma fetchNotes_failed:
  "failed outcome \<Longrightarrow>
   run (fetchNotes True outcome) s =
     (Inr (), \<lparr>store = s\<lparr>isLoading := False\<rparr>,
               effects = [Select ''notes'' ''*'' (notes_query (filter_state s)),
                          ConsoleError ''Error fetching notes:'']\<rparr>)"
  by (simp add: fetchNotes_def failed_def prog_defs split: awaited.splits reply.splits)

lemma fetchMessages_failed:
  "failed outcome \<Longrightarrow>
   run (fetchMessages True channelId t outcome) s =
     (Inr (), \<lparr>store = s\<lparr>isLoadingMessages := False\<rparr>,
               effects = [Select ''chat_messages'' messages_columns
                            [Eq ''channel_id'' channelId, Order ''created_at'' True, Limit 100],
                          ConsoleError ''Error fetching messages:'']\<rparr>)"
  by (simp add: fetchMessages_def failed_def prog_defs split: awaited.splits reply.splits)

text \<open>
  C4. In connected mode, when the read of the gateway fails (it throws, or it resolves to
  an error), \<open>fetchNotes\<close> and \<open>fetchMessages\<close> return normally, the cached list is the
  one before the call (the whole state is, but for the loading flag, which is cleared),
  and the effects are the one query and the one line of the log: nothing is retried.
\<close>

theorem fetch_failure_keeps_cache:
  "(failed out_n \<longrightarrow>
      run (fetchNotes True out_n) s =
        (Inr (), \<lparr>store = s\<lparr>isLoading := False\<rparr>,
                  effects = [Select ''notes'' ''*'' (notes_query (filter_state s)),
                             ConsoleError ''Error fetching notes:'']\<rparr>)
      \<and> notes (store (snd (run (fetchNotes True out_n) s))) = notes s
      \<and> \<not> isLoading (store (snd (run (fetchNotes True out_n) s))))
   \<and> (failed out_m \<longrightarrow>
      run (fetchMessages True channelId t out_m) c =
        (Inr (), \<lparr>store = c\<lparr>isLoadingMessages := False\<rparr>,
                  effects = [Select ''chat_messages'' messages_columns
                               [Eq ''channel_id'' channelId, Order ''created_at'' True, Limit 100],
                             ConsoleError ''Error fetching messages:'']\<rparr>)
      \<and> messages (store (snd (run (fetchMessages True channelId t out_m) c))) = messages c
      \<and> \<not> isLoadingMessages (store (snd (run (fetchMessages True channelId t out_m) c))))"
  by (simp add: fetchNotes_failed fetchMessages_failed)

theorem fetch_failure_keeps_cache_witness:
  "failed (Rejects ''network down'' :: jsobj list reply awaited)
   \<and> notes (store (snd (run (fetchNotes True (Rejects ''network down''))
        \<lparr>notes = [ [''id'' \<mapsto> Str ''n1''] ], isLoading = False, selectedNote = None,
         filter_state = \<lparr>f_type = None, f_status = None, f_priority = None, f_search = []\<rparr>\<rparr>)))
      = [ [''id'' \<mapsto> Str ''n1''] ]
   \<and> failed (Resolves (Failure ''permission denied'') :: chat_message list reply awaited)
   \<and> messages (store (snd (run (fetchMessages True ''general'' ''09:00''
                                   (Resolves (Failure ''permission denied'')))
        \<lparr>channels = [], messages = [demo_message ''general'' ''08:00''],
         currentChannel = None, c_isLoading = False, isLoadingMessages = False\<rparr>)))
      = [demo_message ''general'' ''08:00'']"
  using fetch_failure_keeps_cache
    [of "Rejects ''network down''"
        "\<lparr>notes = [ [''id'' \<mapsto> Str ''n1''] ], isLoading = False, selectedNote = None,
          filter_state = \<lparr>f_type = None, f_status = None, f_priority = None, f_search = []\<rparr>\<rparr>"
        "Resolves (Failure ''permission denied'')" "''general''" "''09:00''"
        "\<lparr>channels = [], messages = [demo_message ''general'' ''08:00''],
          currentChannel = None, c_isLoading = False, isLoadingMessages = False\<rparr>"]
  by (simp add: failed_def)

section \<open>The shares of a personal note\<close>

text \<open>
  C10. \<open>getShares\<close> never throws: from any state, for any identifier and any outcome of
  the query, it returns a list, which is the rows the gateway gave when the query
  succeeded, and the empty list when the gateway gave an error, when the call threw, and
  when the backend is not configured (no query is made then). The store is left as it was.
\<close>

theorem getShares_never_throws:
  "fst (getShares configured n outcome w) =
     Inr (if configured then (case outcome of Resolves (Success d) \<Rightarrow> d | _ \<Rightarrow> []) else [])
   \<and> store (snd (getShares configured n outcome w)) = store w
   \<and> effects (snd (getShares configured n outcome w)) =
       (if configured
        then effects w @ [Select ''personal_note_shares'' shares_columns [Eq ''note_id'' n]]
        else effects w)"
  by (simp add: getShares_def prog_defs split: awaited.splits reply.splits)

theorem getShares_never_throws_witness:
  "fst (getShares True ''p1'' (Rejects ''fetch failed'' :: nat list reply awaited)
         \<lparr>store = (), effects = []\<rparr>) = Inr []
   \<and> fst (getShares True ''p1'' (Resolves (Failure ''denied'') :: nat list reply awaited)
         \<lparr>store = (), effects = []\<rparr>) = Inr []
   \<and> fst (getShares True ''p1'' (Resolves (Success [1, 2 :: nat]))
         \<lparr>store = (), effects = []\<rparr>) = Inr [1, 2]
   \<and> fst (getShares False ''p1'' (Resolves (Success [1, 2 :: nat]))
         \<lparr>store = (), effects = []\<rparr>) = Inr []"
  using getShares_never_throws [of True "''p1''" "Rejects ''fetch failed'' :: nat list reply awaited"
      "\<lparr>store = (), effects = []\<rparr>"]
    getShares_never_throws [of True "''p1''" "Resolves (Failure ''denied'') :: nat list reply awaited"
      "\<lparr>store = (), effects = []\<rparr>"]
    getShares_never_throws [of True "''p1''" "Resolves (Success [1, 2 :: nat])"
      "\<lparr>store = (), effects = []\<rparr>"]
    getShares_never_throws [of False "''p1''" "Resolves (Success [1, 2 :: nat])"
      "\<lparr>store = (), effects = []\<rparr>"]
  by simp

section \<open>The notes store: what is cleaned, and the runs of create and update\<close>

lemma cleanedUpdates_field:
  "k \<in> set relational_fields \<Longrightarrow>
   cleanedUpdates now updates k =
     (case updates k of None \<Rightarrow> None | Some v \<Rightarrow> Some (or_else v Null))"
  by (auto simp: cleanedUpdates_def clean_field_def relational_fields_def get_prop_def
      split: option.splits)

lemma cleanedNote_field:
  "k \<in> set relational_fields \<Longrightarrow> cleanedNote note k = Some (or_else (get_prop note k) Null)"
  by (auto simp: cleanedNote_def relational_fields_def)

lemma or_else_Null_not_empty: "or_else v Null \<noteq> Str []"
  by (cases v) (auto simp: or_else_def)

lemma or_else_Null_blank: "blank v \<Longrightarrow> or_else v Null = Null"
  by (auto simp: or_else_def blank_def)


lemma createNote_submits:
  "submitted (effects (snd (run (createNote True fr note ins usr ntf) s))) = [cleanedNote note]"
  by (simp add: createNote_def prog_defs split: awaited.splits reply.splits)

lemma updateNote_submits:
  "submitted (effects (snd (run (updateNote True now i updates pre upd usr ntf) s))) =
     (case pre of Rejects m \<Rightarrow> [] | Resolves cur \<Rightarrow> [cleanedUpdates now updates])"
  by (simp add: updateNote_def prog_defs split: awaited.splits reply.splits)






lemma updateNote_resolved:
  "pre = Resolves cur \<Longrightarrow> upd = Resolves (Success d) \<Longrightarrow> usr = Resolves u \<Longrightarrow>
   ntf = Resolves r \<Longrightarrow>
   fst (run (updateNote True now i updates pre upd usr ntf) s) = Inr None
   \<and> store (snd (run (updateNote True now i updates pre upd usr ntf) s)) =
       s\<lparr>notes := map (\<lambda>n. if has_id i n then d else n) (notes s),
         selectedNote := (if selected_is i s then Some d else selectedNote s)\<rparr>"
  by (simp add: updateNote_def prog_defs split: awaited.splits reply.splits)

lemma updateNote_notification_throws:
  "truthy (get_prop (cleanedUpdates now updates) ''assigned_to'') \<Longrightarrow>
   \<not> strict_eq (get_prop (cleanedUpdates now updates) ''assigned_to'') (stored_assignee cur) \<Longrightarrow>
   pre = Resolves cur \<Longrightarrow> upd = Resolves (Success d) \<Longrightarrow> usr = Resolves u \<Longrightarrow>
   ntf = Rejects m \<Longrightarrow>
   fst (run (updateNote True now i updates pre upd usr ntf) s) = Inr (Some m)
   \<and> store (snd (run (updateNote True now i updates pre upd usr ntf) s)) = s"
  by (simp add: updateNote_def prog_defs split: awaited.splits reply.splits)

lemma createNote_resolved:
  "ins = Resolves (Success d) \<Longrightarrow> usr = Resolves u \<Longrightarrow> ntf = Resolves r \<Longrightarrow>
   fst (run (createNote True fr note ins usr ntf) s) = Inr None
   \<and> store (snd (run (createNote True fr note ins usr ntf) s)) = s\<lparr>notes := d # notes s\<rparr>"
  by (simp add: createNote_def prog_defs split: awaited.splits reply.splits)

lemma createNote_notification_throws:
  "truthy (get_prop (cleanedNote note) ''assigned_to'') \<Longrightarrow>
   \<not> strict_eq (get_prop (cleanedNote note) ''assigned_to'')
                (get_prop (cleanedNote note) ''created_by'') \<Longrightarrow>
   ins = Resolves (Success d) \<Longrightarrow> usr = Resolves u \<Longrightarrow> ntf = Rejects m \<Longrightarrow>
   fst (run (createNote True fr note ins usr ntf) s) = Inr (Some m)
   \<and> store (snd (run (createNote True fr note ins usr ntf) s)) = s"
  by (simp add: createNote_def prog_defs split: awaited.splits reply.splits)

lemma createNote_user_throws:
  "truthy (get_prop (cleanedNote note) ''assigned_to'') \<Longrightarrow>
   \<not> strict_eq (get_prop (cleanedNote note) ''assigned_to'')
                (get_prop (cleanedNote note) ''created_by'') \<Longrightarrow>
   ins = Resolves (Success d) \<Longrightarrow> usr = Rejects m \<Longrightarrow>
   fst (run (createNote True fr note ins usr ntf) s) = Inr (Some m)
   \<and> store (snd (run (createNote True fr note ins usr ntf) s)) = s"
  by (simp add: createNote_def prog_defs split: awaited.splits reply.splits)

lemma updateNote_user_throws:
  "truthy (get_prop (cleanedUpdates now updates) ''assigned_to'') \<Longrightarrow>
   \<not> strict_eq (get_prop (cleanedUpdates now updates) ''assigned_to'') (stored_assignee cur) \<Longrightarrow>
   pre = Resolves cur \<Longrightarrow> upd = Resolves (Success d) \<Longrightarrow> usr = Rejects m \<Longrightarrow>
   fst (run (updateNote True now i updates pre upd usr ntf) s) = Inr (Some m)
   \<and> store (snd (run (updateNote True now i updates pre upd usr ntf) s)) = s"
  by (simp add: updateNote_def prog_defs split: awaited.splits reply.splits)

section \<open>Blank relational fields\<close>

text \<open>
  C5. In connected mode the one row that \<open>createNote\<close> submits to the gateway is
  \<open>cleanedNote\<close>, and the one row that \<open>updateNote\<close> submits (when its first read did not
  throw) is \<open>cleanedUpdates\<close>. For each of the fields \<open>assigned_to\<close>, \<open>parent_id\<close> and
  \<open>project\<close>: the submitted value is never the empty string; a creation that leaves the
  field blank (missing, \<open>undefined\<close>, \<open>null\<close> or the empty string) submits \<open>null\<close>; an update
  that has the field and leaves it blank submits \<open>null\<close>; and an update that does not have
  the field does not submit it.
\<close>

theorem blank_relational_fields_become_null:
  "k \<in> set relational_fields \<Longrightarrow>
   submitted (effects (snd (run (createNote True fr note ins usr ntf) s))) = [cleanedNote note]
   \<and> cleanedNote note k \<noteq> Some (Str [])
   \<and> (blank (get_prop note k) \<longrightarrow> cleanedNote note k = Some Null)
   \<and> submitted (effects (snd (run (updateNote True now i updates pre upd usr ntf) s))) =
       (case pre of Rejects m \<Rightarrow> [] | Resolves cur \<Rightarrow> [cleanedUpdates now updates])
   \<and> cleanedUpdates now updates k \<noteq> Some (Str [])
   \<and> (\<forall>v. updates k = Some v \<and> blank v \<longrightarrow> cleanedUpdates now updates k = Some Null)
   \<and> (updates k = None \<longrightarrow> cleanedUpdates now updates k = None)"
  by (simp add: createNote_submits updateNote_submits cleanedNote_field cleanedUpdates_field
      or_else_Null_not_empty or_else_Null_blank split: option.splits)

theorem blank_relational_fields_become_null_witness:
  "''assigned_to'' \<in> set relational_fields
   \<and> blank (get_prop [''title'' \<mapsto> Str ''Report'', ''assigned_to'' \<mapsto> Str []] ''assigned_to'')
   \<and> cleanedNote [''title'' \<mapsto> Str ''Report'', ''assigned_to'' \<mapsto> Str []] ''assigned_to''
       = Some Null
   \<and> [''assigned_to'' \<mapsto> Str []] ''assigned_to'' = Some (Str [])
   \<and> blank (Str [])
   \<and> cleanedUpdates ''10:00'' [''assigned_to'' \<mapsto> Str []] ''assigned_to'' = Some Null
   \<and> ''project'' \<in> set relational_fields
   \<and> [''assigned_to'' \<mapsto> Str []] ''project'' = None
   \<and> cleanedUpdates ''10:00'' [''assigned_to'' \<mapsto> Str []] ''project'' = None"
  using blank_relational_fields_become_null
    [where ?k = "''project''"
       and ?note = "[''title'' \<mapsto> Str ''Report'', ''assigned_to'' \<mapsto> Str []]"
       and ?updates = "[''assigned_to'' \<mapsto> Str []]" and ?now = "''10:00''"
       and ?fr = "\<lparr>generated_id = ''demo-1'', created_now = ''10:00'', updated_now = ''10:00''\<rparr>"
       and ?ins = "Rejects ''offline''" and ?usr = "Rejects ''offline''"
       and ?ntf = "Rejects ''offline'' :: unit awaited" and ?s = initial_notes_state
       and ?i = "''n1''" and ?pre = "Rejects ''offline''" and ?upd = "Rejects ''offline''"]
    blank_relational_fields_become_null
    [where ?k = "''assigned_to''"
       and ?note = "[''title'' \<mapsto> Str ''Report'', ''assigned_to'' \<mapsto> Str []]"
       and ?updates = "[''assigned_to'' \<mapsto> Str []]" and ?now = "''10:00''"
       and ?fr = "\<lparr>generated_id = ''demo-1'', created_now = ''10:00'', updated_now = ''10:00''\<rparr>"
       and ?ins = "Rejects ''offline''" and ?usr = "Rejects ''offline''"
       and ?ntf = "Rejects ''offline'' :: unit awaited" and ?s = initial_notes_state
       and ?i = "''n1''" and ?pre = "Rejects ''offline''" and ?upd = "Rejects ''offline''"]
  by (simp add: relational_fields_def blank_def get_prop_def)

section \<open>Notification on reassignment\<close>





section \<open>A notification that fails\<close>

text \<open>
  C3, as the claim states it, fails: the notification is awaited inside the \<open>try\<close> block of
  the operation, so when the call throws, the \<open>catch\<close> of the operation returns the
  message as the operation's error, and the row the gateway has inserted is not put in
  the cache. The same happens when the look-up of the current user, made for the
  notification, throws.
\<close>

theorem notification_failure_propagates:
  "fst (run (createNote True
              \<lparr>generated_id = ''demo-1'', created_now = ''10:00'', updated_now = ''10:00''\<rparr>
              [''title'' \<mapsto> Str ''Report'', ''assigned_to'' \<mapsto> Str ''bob'',
               ''created_by'' \<mapsto> Str ''alice'']
              (Resolves (Success [''id'' \<mapsto> Str ''n1'', ''title'' \<mapsto> Str ''Report'']))
              (Resolves (Some ''alice''))
              (Rejects ''notification failed'' :: unit awaited))
         initial_notes_state)
     = Inr (Some ''notification failed'')
   \<and> notes (store (snd (run (createNote True
              \<lparr>generated_id = ''demo-1'', created_now = ''10:00'', updated_now = ''10:00''\<rparr>
              [''title'' \<mapsto> Str ''Report'', ''assigned_to'' \<mapsto> Str ''bob'',
               ''created_by'' \<mapsto> Str ''alice'']
              (Resolves (Success [''id'' \<mapsto> Str ''n1'', ''title'' \<mapsto> Str ''Report'']))
              (Resolves (Some ''alice''))
              (Rejects ''notification failed'' :: unit awaited))
         initial_notes_state)))
     = []
   \<and> fst (run (createNote True
              \<lparr>generated_id = ''demo-1'', created_now = ''10:00'', updated_now = ''10:00''\<rparr>
              [''title'' \<mapsto> Str ''Report'', ''assigned_to'' \<mapsto> Str ''bob'',
               ''created_by'' \<mapsto> Str ''alice'']
              (Resolves (Success [''id'' \<mapsto> Str ''n1'', ''title'' \<mapsto> Str ''Report'']))
              (Rejects ''no session'')
              (Resolves () :: unit awaited))
         initial_notes_state)
     = Inr (Some ''no session'')"
  by (simp add: createNote_def prog_defs cleanedNote_def get_prop_def or_else_def
      initial_notes_state_def)

text \<open>
  C3, amended. When the mutation has succeeded at the gateway and the notification call
  resolves, whatever it resolves to (a result that reports an error too), \<open>createNote\<close>
  and \<open>updateNote\<close> return success and update the cache: the result of the call is
  dropped. When a notification is due and the notification call throws, or the look-up
  of the current user made for it throws, the operation returns the thrown message as
  its error and leaves the cache as it was.
\<close>

theorem notification_result_is_dropped:
  "(ins = Resolves (Success d) \<and> usr = Resolves u \<and> ntf = Resolves r \<longrightarrow>
      fst (run (createNote True fr note ins usr ntf) s) = Inr None
      \<and> store (snd (run (createNote True fr note ins usr ntf) s)) = s\<lparr>notes := d # notes s\<rparr>)
   \<and> (pre = Resolves cur \<and> upd = Resolves (Success d) \<and> usr = Resolves u \<and> ntf = Resolves r
        \<longrightarrow>
      fst (run (updateNote True now i updates pre upd usr ntf) s) = Inr None
      \<and> store (snd (run (updateNote True now i updates pre upd usr ntf) s)) =
          s\<lparr>notes := map (\<lambda>n. if has_id i n then d else n) (notes s),
            selectedNote := (if selected_is i s then Some d else selectedNote s)\<rparr>)
   \<and> (truthy (get_prop (cleanedNote note) ''assigned_to'')
        \<and> \<not> strict_eq (get_prop (cleanedNote note) ''assigned_to'')
                       (get_prop (cleanedNote note) ''created_by'')
        \<and> ins = Resolves (Success d)
        \<and> (usr = Rejects m \<or> usr = Resolves u \<and> ntf = Rejects m) \<longrightarrow>
      fst (run (createNote True fr note ins usr ntf) s) = Inr (Some m)
      \<and> store (snd (run (createNote True fr note ins usr ntf) s)) = s)
   \<and> (truthy (get_prop (cleanedUpdates now updates) ''assigned_to'')
        \<and> \<not> strict_eq (get_prop (cleanedUpdates now updates) ''assigned_to'')
                       (stored_assignee cur)
        \<and> pre = Resolves cur \<and> upd = Resolves (Success d)
        \<and> (usr = Rejects m \<or> usr = Resolves u \<and> ntf = Rejects m) \<longrightarrow>
      fst (run (updateNote True now i updates pre upd usr ntf) s) = Inr (Some m)
      \<and> store (snd (run (updateNote True now i updates pre upd usr ntf) s)) = s)"
  using createNote_resolved [of ins d usr u ntf r fr "note" s]
    updateNote_resolved [of pre cur upd d usr u ntf r now i updates s]
    createNote_notification_throws [of "note" ins d usr u ntf m fr s]
    updateNote_notification_throws [of now updates cur pre upd d usr u ntf m i s]
    createNote_user_throws [of "note" ins d usr m fr ntf s]
    updateNote_user_throws [of now updates cur pre upd d usr m i ntf s]
  by blast

theorem notification_result_is_dropped_witness:
  "fst (run (createNote True
              \<lparr>generated_id = ''demo-1'', created_now = ''10:00'', updated_now = ''10:00''\<rparr>
              [''title'' \<mapsto> Str ''Report'', ''assigned_to'' \<mapsto> Str ''bob'',
               ''created_by'' \<mapsto> Str ''alice'']
              (Resolves (Success [''id'' \<mapsto> Str ''n1'', ''title'' \<mapsto> Str ''Report'']))
              (Resolves (Some ''alice''))
              (Resolves (Some ''row-level security'')))
         initial_notes_state)
     = Inr None
   \<and> fst (run (updateNote True ''10:00'' ''n1'' [''assigned_to'' \<mapsto> Str ''carol'']
              (Resolves (Success [''assigned_to'' \<mapsto> Str ''bob'']))
              (Resolves (Success [''id'' \<mapsto> Str ''n1'', ''title'' \<mapsto> Str ''Report'']))
              (Resolves (Some ''alice''))
              (Resolves (Some ''row-level security'')))
         initial_notes_state)
     = Inr None
   \<and> truthy (get_prop (cleanedUpdates ''10:00'' [''assigned_to'' \<mapsto> Str ''carol'']) ''assigned_to'')
   \<and> \<not> strict_eq (get_prop (cleanedUpdates ''10:00'' [''assigned_to'' \<mapsto> Str ''carol'']) ''assigned_to'')
                  (stored_assignee (Success [''assigned_to'' \<mapsto> Str ''bob'']))
   \<and> fst (run (updateNote True ''10:00'' ''n1'' [''assigned_to'' \<mapsto> Str ''carol'']
              (Resolves (Success [''assigned_to'' \<mapsto> Str ''bob'']))
              (Resolves (Success [''id'' \<mapsto> Str ''n1'', ''title'' \<mapsto> Str ''Report'']))
              (Resolves (Some ''alice''))
              (Rejects ''notification failed'' :: string option awaited))
         initial_notes_state)
     = Inr (Some ''notification failed'')
   \<and> store (snd (run (updateNote True ''10:00'' ''n1'' [''assigned_to'' \<mapsto> Str ''carol'']
              (Resolves (Success [''assigned_to'' \<mapsto> Str ''bob'']))
              (Resolves (Success [''id'' \<mapsto> Str ''n1'', ''title'' \<mapsto> Str ''Report'']))
              (Resolves (Some ''alice''))
              (Rejects ''notification failed'' :: string option awaited))
         initial_notes_state))
     = initial_notes_state
   \<and> truthy (get_prop (cleanedNote [''title'' \<mapsto> Str ''Report'', ''assigned_to'' \<mapsto> Str ''bob'',
               ''created_by'' \<mapsto> Str ''alice'']) ''assigned_to'')
   \<and> \<not> strict_eq (get_prop (cleanedNote [''title'' \<mapsto> Str ''Report'', ''assigned_to'' \<mapsto> Str ''bob'',
               ''created_by'' \<mapsto> Str ''alice'']) ''assigned_to'')
                  (get_prop (cleanedNote [''title'' \<mapsto> Str ''Report'', ''assigned_to'' \<mapsto> Str ''bob'',
               ''created_by'' \<mapsto> Str ''alice'']) ''created_by'')
   \<and> fst (run (createNote True
              \<lparr>generated_id = ''demo-1'', created_now = ''10:00'', updated_now = ''10:00''\<rparr>
              [''title'' \<mapsto> Str ''Report'', ''assigned_to'' \<mapsto> Str ''bob'',
               ''created_by'' \<mapsto> Str ''alice'']
              (Resolves (Success [''id'' \<mapsto> Str ''n1'', ''title'' \<mapsto> Str ''Report'']))
              (Rejects ''no session'')
              (Resolves None :: string option awaited))
         initial_notes_state)
     = Inr (Some ''no session'')"
  using notification_result_is_dropped
    [where ?ins = "Resolves (Success [''id'' \<mapsto> Str ''n1'', ''title'' \<mapsto> Str ''Report''])"
       and ?d = "[''id'' \<mapsto> Str ''n1'', ''title'' \<mapsto> Str ''Report'']"
       and ?usr = "Resolves (Some ''alice'')" and ?u = "Some ''alice''"
       and ?ntf = "Resolves (Some ''row-level security'')" and ?r = "Some ''row-level security''"
       and ?fr = "\<lparr>generated_id = ''demo-1'', created_now = ''10:00'', updated_now = ''10:00''\<rparr>"
       and ?note = "[''title'' \<mapsto> Str ''Report'', ''assigned_to'' \<mapsto> Str ''bob'', ''created_by'' \<mapsto> Str ''alice'']"
       and ?s = initial_notes_state
       and ?pre = "Resolves (Success [''assigned_to'' \<mapsto> Str ''bob''])"
       and ?cur = "Success [''assigned_to'' \<mapsto> Str ''bob'']"
       and ?upd = "Resolves (Success [''id'' \<mapsto> Str ''n1'', ''title'' \<mapsto> Str ''Report''])"
       and ?now = "''10:00''" and ?i = "''n1''"
       and ?updates = "[''assigned_to'' \<mapsto> Str ''carol'']"
       and ?m = "''unused''"]
    notification_result_is_dropped
    [where ?ins = "Resolves (Success [''id'' \<mapsto> Str ''n1'', ''title'' \<mapsto> Str ''Report''])"
       and ?d = "[''id'' \<mapsto> Str ''n1'', ''title'' \<mapsto> Str ''Report'']"
       and ?usr = "Resolves (Some ''alice'')" and ?u = "Some ''alice''"
       and ?ntf = "Rejects ''notification failed'' :: string option awaited" and ?r = "None"
       and ?fr = "\<lparr>generated_id = ''demo-1'', created_now = ''10:00'', updated_now = ''10:00''\<rparr>"
       and ?note = "[''title'' \<mapsto> Str ''Report'', ''assigned_to'' \<mapsto> Str ''bob'', ''created_by'' \<mapsto> Str ''alice'']"
       and ?s = initial_notes_state
       and ?pre = "Resolves (Success [''assigned_to'' \<mapsto> Str ''bob''])"
       and ?cur = "Success [''assigned_to'' \<mapsto> Str ''bob'']"
       and ?upd = "Resolves (Success [''id'' \<mapsto> Str ''n1'', ''title'' \<mapsto> Str ''Report''])"
       and ?now = "''10:00''" and ?i = "''n1''"
       and ?updates = "[''assigned_to'' \<mapsto> Str ''carol'']"
       and ?m = "''notification failed''"]
    notification_result_is_dropped
    [where ?ins = "Resolves (Success [''id'' \<mapsto> Str ''n1'', ''title'' \<mapsto> Str ''Report''])"
       and ?d = "[''id'' \<mapsto> Str ''n1'', ''title'' \<mapsto> Str ''Report'']"
       and ?usr = "Rejects ''no session''" and ?u = "None"
       and ?ntf = "Resolves None :: string option awaited" and ?r = "None"
       and ?fr = "\<lparr>generated_id = ''demo-1'', created_now = ''10:00'', updated_now = ''10:00''\<rparr>"
       and ?note = "[''title'' \<mapsto> Str ''Report'', ''assigned_to'' \<mapsto> Str ''bob'', ''created_by'' \<mapsto> Str ''alice'']"
       and ?s = initial_notes_state
       and ?pre = "Resolves (Success [''assigned_to'' \<mapsto> Str ''bob''])"
       and ?cur = "Success [''assigned_to'' \<mapsto> Str ''bob'']"
       and ?upd = "Resolves (Success [''id'' \<mapsto> Str ''n1'', ''title'' \<mapsto> Str ''Report''])"
       and ?now = "''10:00''" and ?i = "''n1''"
       and ?updates = "[''assigned_to'' \<mapsto> Str ''carol'']"
       and ?m = "''no session''"]
  by (simp add: cleanedUpdates_def clean_field_def cleanedNote_def or_else_def
      stored_assignee_def get_prop_def)

section \<open>Deleting\<close>

lemma deleteNote_demo:
  "run (deleteNote False i del) s = (Inr None, \<lparr>store = drop_note i s, effects = []\<rparr>)"
  by (simp add: deleteNote_def prog_defs)

lemma deleteNote_connected:
  "run (deleteNote True i del) s =
     (case del of
        Resolves (Success u) \<Rightarrow>
          (Inr None, \<lparr>store = drop_note i s, effects = [Delete ''notes'' [Eq ''id'' i]]\<rparr>)
      | Resolves (Failure e) \<Rightarrow>
          (Inr (Some e), \<lparr>store = s, effects = [Delete ''notes'' [Eq ''id'' i]]\<rparr>)
      | Rejects m \<Rightarrow>
          (Inr (Some m), \<lparr>store = s, effects = [Delete ''notes'' [Eq ''id'' i]]\<rparr>))"
  by (simp add: deleteNote_def prog_defs split: awaited.splits reply.splits)

lemma drop_note_absent:
  "\<forall>n \<in> set (notes s). \<not> has_id i n \<Longrightarrow> notes (drop_note i s) = notes s"
  by (simp add: drop_note_def filter_id_conv)

lemma drop_note_absent_unselected:
  "\<forall>n \<in> set (notes s). \<not> has_id i n \<Longrightarrow> \<not> selected_is i s \<Longrightarrow> drop_note i s = s"
  by (simp add: drop_note_def filter_id_conv)

lemma deletePersonalNote_demo:
  "run (deletePersonalNote False i del) s =
     (Inr None, \<lparr>store = s\<lparr>pnotes := filter (\<lambda>n. pn_id n \<noteq> i) (pnotes s)\<rparr>, effects = []\<rparr>)"
  by (simp add: deletePersonalNote_def prog_defs)

lemma deletePersonalNote_connected:
  "run (deletePersonalNote True i del) s =
     (case del of
        Resolves (Success u) \<Rightarrow>
          (Inr None, \<lparr>store = s\<lparr>pnotes := filter (\<lambda>n. pn_id n \<noteq> i) (pnotes s)\<rparr>,
                      effects = [Delete ''personal_notes'' [Eq ''id'' i]]\<rparr>)
      | Resolves (Failure e) \<Rightarrow>
          (Inr (Some e), \<lparr>store = s, effects = [Delete ''personal_notes'' [Eq ''id'' i]]\<rparr>)
      | Rejects m \<Rightarrow>
          (Inr (Some m), \<lparr>store = s, effects = [Delete ''personal_notes'' [Eq ''id'' i]]\<rparr>))"
  by (simp add: deletePersonalNote_def prog_defs split: awaited.splits reply.splits)

text \<open>
  C6, as the claim states it, fails twice. In connected mode the deletion of an
  identifier that the cache does not have returns an error when the gateway gives one.
  And the selected note is cleared when it has the identifier, also when the cache has
  no entry with it, so it is not always left as it was.
\<close>

theorem delete_absent_id_counterexample:
  "notes initial_notes_state = []
   \<and> fst (run (deleteNote True ''missing-id'' (Resolves (Failure ''permission denied'')))
            initial_notes_state) = Inr (Some ''permission denied'')
   \<and> notes (initial_notes_state\<lparr>selectedNote := Some [''id'' \<mapsto> Str ''n1'']\<rparr>) = []
   \<and> selectedNote (store (snd (run (deleteNote False ''n1'' (Resolves (Success ())))
        (initial_notes_state\<lparr>selectedNote := Some [''id'' \<mapsto> Str ''n1'']\<rparr>)))) = None"
  by (simp add: deleteNote_def prog_defs initial_notes_state_def drop_note_def selected_is_def
      has_id_def get_prop_def)

text \<open>
  C6, amended. In demo mode, and in connected mode when the gateway's deletion succeeds,
  \<open>deleteNote\<close> returns success; the cache then loses exactly the entries whose identifier
  is the given one, the others staying in their order, and the selected note is cleared
  exactly when it has that identifier. So for an identifier that the cache does not have,
  the cache is left as it was, and the whole state is when the selected note does not
  have the identifier either. When the gateway gives an error or the call throws, the
  operation returns the message as its error and the state is left as it was. The same
  holds of the personal notes, which have no selected note.
\<close>

theorem delete_removes_exactly_id:
  "((configured \<longrightarrow> del = Resolves (Success ())) \<longrightarrow>
      fst (run (deleteNote configured i del) s) = Inr None
      \<and> store (snd (run (deleteNote configured i del) s)) = drop_note i s
      \<and> fst (run (deletePersonalNote configured i del) p) = Inr None
      \<and> store (snd (run (deletePersonalNote configured i del) p)) =
          p\<lparr>pnotes := filter (\<lambda>n. pn_id n \<noteq> i) (pnotes p)\<rparr>)
   \<and> (del = Resolves (Failure m) \<or> del = Rejects m \<longrightarrow>
      fst (run (deleteNote True i del) s) = Inr (Some m)
      \<and> store (snd (run (deleteNote True i del) s)) = s
      \<and> fst (run (deletePersonalNote True i del) p) = Inr (Some m)
      \<and> store (snd (run (deletePersonalNote True i del) p)) = p)
   \<and> notes (drop_note i s) = filter (\<lambda>n. \<not> has_id i n) (notes s)
   \<and> selectedNote (drop_note i s) = (if selected_is i s then None else selectedNote s)
   \<and> ((\<forall>n \<in> set (notes s). \<not> has_id i n) \<longrightarrow> notes (drop_note i s) = notes s)
   \<and> ((\<forall>n \<in> set (notes s). \<not> has_id i n) \<and> \<not> selected_is i s \<longrightarrow> drop_note i s = s)
   \<and> ((\<forall>n \<in> set (pnotes p). pn_id n \<noteq> i) \<longrightarrow>
        p\<lparr>pnotes := filter (\<lambda>n. pn_id n \<noteq> i) (pnotes p)\<rparr> = p)"
proof -
  have ok: "fst (run (deleteNote configured i del) s) = Inr None
      \<and> store (snd (run (deleteNote configured i del) s)) = drop_note i s
      \<and> fst (run (deletePersonalNote configured i del) p) = Inr None
      \<and> store (snd (run (deletePersonalNote configured i del) p)) =
          p\<lparr>pnotes := filter (\<lambda>n. pn_id n \<noteq> i) (pnotes p)\<rparr>"
    if "configured \<longrightarrow> del = Resolves (Success ())"
    using that
    by (cases configured)
      (simp_all add: deleteNote_demo deleteNote_connected deletePersonalNote_demo
        deletePersonalNote_connected)
  have ko: "fst (run (deleteNote True i del) s) = Inr (Some m)
      \<and> store (snd (run (deleteNote True i del) s)) = s
      \<and> fst (run (deletePersonalNote True i del) p) = Inr (Some m)
      \<and> store (snd (run (deletePersonalNote True i del) p)) = p"
    if "del = Resolves (Failure m) \<or> del = Rejects m"
    using that by (auto simp: deleteNote_connected deletePersonalNote_connected)
  have absent: "p\<lparr>pnotes := filter (\<lambda>n. pn_id n \<noteq> i) (pnotes p)\<rparr> = p"
    if "\<forall>n \<in> set (pnotes p). pn_id n \<noteq> i"
    using that by (simp add: filter_id_conv)
  show ?thesis
    using ok ko absent drop_note_absent [of s i] drop_note_absent_unselected [of s i]
    by (simp add: drop_note_def)
qed

theorem delete_removes_exactly_id_witness:
  "fst (run (deleteNote False ''missing-id'' (Resolves (Success ())))
          (initial_notes_state\<lparr>notes := [ [''id'' \<mapsto> Str ''n1''] ]\<rparr>)) = Inr None
   \<and> store (snd (run (deleteNote False ''missing-id'' (Resolves (Success ())))
          (initial_notes_state\<lparr>notes := [ [''id'' \<mapsto> Str ''n1''] ]\<rparr>)))
       = initial_notes_state\<lparr>notes := [ [''id'' \<mapsto> Str ''n1''] ]\<rparr>
   \<and> list_all (\<lambda>n. \<not> has_id ''missing-id'' n)
        (notes (initial_notes_state\<lparr>notes := [ [''id'' \<mapsto> Str ''n1''] ]\<rparr>))
   \<and> \<not> selected_is ''missing-id'' (initial_notes_state\<lparr>notes := [ [''id'' \<mapsto> Str ''n1''] ]\<rparr>)
   \<and> list_all (\<lambda>n. pn_id n \<noteq> ''missing-id'') (pnotes initial_personal_state)
   \<and> store (snd (run (deletePersonalNote False ''missing-id'' (Resolves (Success ())))
          initial_personal_state)) = initial_personal_state
   \<and> fst (run (deleteNote True ''n1'' (Resolves (Success ())))
          (initial_notes_state\<lparr>notes := [ [''id'' \<mapsto> Str ''n1''] ]\<rparr>)) = Inr None
   \<and> notes (store (snd (run (deleteNote True ''n1'' (Resolves (Success ())))
          (initial_notes_state\<lparr>notes := [ [''id'' \<mapsto> Str ''n1''] ]\<rparr>)))) = []
   \<and> fst (run (deleteNote True ''n1'' (Resolves (Failure ''permission denied'')))
          (initial_notes_state\<lparr>notes := [ [''id'' \<mapsto> Str ''n1''] ]\<rparr>))
       = Inr (Some ''permission denied'')
   \<and> store (snd (run (deleteNote True ''n1'' (Resolves (Failure ''permission denied'')))
          (initial_notes_state\<lparr>notes := [ [''id'' \<mapsto> Str ''n1''] ]\<rparr>)))
       = initial_notes_state\<lparr>notes := [ [''id'' \<mapsto> Str ''n1''] ]\<rparr>"
  using delete_removes_exactly_id
    [where ?configured = False and ?del = "Resolves (Success ())" and ?i = "''missing-id''"
       and ?s = "initial_notes_state\<lparr>notes := [ [''id'' \<mapsto> Str ''n1''] ]\<rparr>"
       and ?p = initial_personal_state and ?m = "''unused''"]
    delete_removes_exactly_id
    [where ?configured = True and ?del = "Resolves (Success ())" and ?i = "''n1''"
       and ?s = "initial_notes_state\<lparr>notes := [ [''id'' \<mapsto> Str ''n1''] ]\<rparr>"
       and ?p = initial_personal_state and ?m = "''unused''"]
    delete_removes_exactly_id
    [where ?configured = True and ?del = "Resolves (Failure ''permission denied'')" and ?i = "''n1''"
       and ?s = "initial_notes_state\<lparr>notes := [ [''id'' \<mapsto> Str ''n1''] ]\<rparr>"
       and ?p = initial_personal_state and ?m = "''permission denied''"]
  by (simp add: initial_notes_state_def initial_personal_state_def has_id_def get_prop_def
      selected_is_def drop_note_def)

section \<open>The teardown of a subscription\<close>

lemma fold_on_status:
  "fold on_status statuses (Some h) =
     Some (h\<lparr>isSubscribed := (if statuses = [] then isSubscribed h
                               else last statuses = SUBSCRIBED)\<rparr>)"
  by (induction statuses arbitrary: h) (auto simp: on_status_def)

lemma fold_on_status_None: "fold on_status statuses None = None"
  by (induction statuses) (auto simp: on_status_def)

lemma removeChannel_removes: "t \<notin> set (removeChannel t rt)"
  by (simp add: removeChannel_def)

text \<open>
  C7, as the claim states it, fails: the teardown removes the channel only when the flag
  \<open>isSubscribed\<close> is set. When no status was reported, or the handshake timed out, the
  channel that \<open>subscribeToMessages\<close> opened is still there after the teardown.
\<close>

theorem teardown_leaks_unsubscribed_channel:
  "subscription_life True ''general'' [] [] = [''chat-messages-general'']
   \<and> subscription_life True ''general'' [TIMED_OUT] [] = [''chat-messages-general'']"
  by (simp add: subscription_life_def subscribeToMessages_def teardown_def on_status_def)

text \<open>
  C7, amended. The teardown removes the channel exactly when the last status that the
  realtime client reported to the subscription was \<open>SUBSCRIBED\<close>; the channel is then not
  among the channels of the client. In every other case (no status yet, or a last status
  that is a timeout, a closing or an error) the teardown does nothing and the channel
  stays; in demo mode no channel is opened and the teardown does nothing.
\<close>

theorem teardown_removes_subscribed_channel:
  "subscription_life True channelId statuses rt =
     (if statuses \<noteq> [] \<and> last statuses = SUBSCRIBED
      then removeChannel (''chat-messages-'' @ channelId) (rt @ [''chat-messages-'' @ channelId])
      else rt @ [''chat-messages-'' @ channelId])
   \<and> (''chat-messages-'' @ channelId \<in> set (subscription_life True channelId statuses rt)) =
       (\<not> (statuses \<noteq> [] \<and> last statuses = SUBSCRIBED))
   \<and> subscription_life False channelId statuses rt = rt"
  by (simp add: subscription_life_def subscribeToMessages_def teardown_def fold_on_status
      fold_on_status_None removeChannel_removes)

theorem teardown_removes_subscribed_channel_witness:
  "subscription_life True ''general'' [SUBSCRIBED] [''presence''] = [''presence'']
   \<and> subscription_life True ''general'' [SUBSCRIBED, CLOSED] [''presence'']
       = [''presence'', ''chat-messages-general'']
   \<and> subscription_life False ''general'' [SUBSCRIBED] [''presence''] = [''presence'']"
  using teardown_removes_subscribed_channel [of "''general''" "[SUBSCRIBED]" "[''presence'']"]
    teardown_removes_subscribed_channel [of "''general''" "[SUBSCRIBED, CLOSED]" "[''presence'']"]
  by (simp add: removeChannel_def)

section \<open>Creating\<close>

lemma createNote_demo:
  "run (createNote False fr note ins usr ntf) s =
     (Inr None, \<lparr>store = s\<lparr>notes := demo_note fr note # notes s\<rparr>, effects = []\<rparr>)"
  by (simp add: createNote_def prog_defs)

lemma createNote_success:
  "fst (run (createNote True fr note ins usr ntf) s) = Inr None \<Longrightarrow>
   \<exists>d. ins = Resolves (Success d)
     \<and> store (snd (run (createNote True fr note ins usr ntf) s)) = s\<lparr>notes := d # notes s\<rparr>"
  by (auto simp: createNote_def prog_defs split: awaited.splits reply.splits if_splits)

lemma createPersonalNote_demo:
  "run (createPersonalNote False fr title c usr ins) p =
     (Inr \<lparr>cr_error = None,
           cr_note = Some (demo_personal_note fr title (case c of None \<Rightarrow> [] | Some x \<Rightarrow> x))\<rparr>,
      \<lparr>store = p\<lparr>pnotes := demo_personal_note fr title (case c of None \<Rightarrow> [] | Some x \<Rightarrow> x)
                             # pnotes p\<rparr>,
       effects = []\<rparr>)"
  by (simp add: createPersonalNote_def prog_defs Let_def)

lemma createPersonalNote_success:
  "fst (run (createPersonalNote True fr title c usr ins) p) = Inr res \<Longrightarrow> cr_error res = None \<Longrightarrow>
   \<exists>d. ins = Resolves (Success d) \<and> cr_note res = Some d
     \<and> store (snd (run (createPersonalNote True fr title c usr ins) p)) =
         p\<lparr>pnotes := d # pnotes p\<rparr>"
  by (auto simp: createPersonalNote_def prog_defs Let_def split: awaited.splits reply.splits)

lemma createChannel_demo:
  "run (createChannel False name description type_arg usr ins) c =
     (Inr None, \<lparr>store = c, effects = []\<rparr>)"
  by (simp add: createChannel_def prog_defs Let_def)

lemma createChannel_success:
  "fst (run (createChannel True name description type_arg usr ins) c) = Inr None \<Longrightarrow>
   \<exists>d. ins = Resolves (Success d)
     \<and> store (snd (run (createChannel True name description type_arg usr ins) c)) =
         c\<lparr>channels := channels c @ [d]\<rparr>"
  by (auto simp: createChannel_def prog_defs Let_def split: awaited.splits reply.splits)

text \<open>
  C8, as the claim states it, fails for the channels of the chat store: a channel that is
  created in connected mode is put at the tail of the cache, after the channels already
  there, and not at its head.
\<close>

theorem createChannel_appends_counterexample:
  "channels (store (snd (run
       (createChannel True ''dev'' None None (Resolves (Some ''alice''))
          (Resolves (Success
             \<lparr>c_id = ''c2'', c_name = ''dev'', c_description = None, c_type = ''public'',
              c_created_by = Some ''alice'', c_created_at = ''10:00'', c_updated_at = ''10:00''\<rparr>)))
       (initial_chat_state\<lparr>channels :=
          [\<lparr>c_id = ''c1'', c_name = ''general'', c_description = None, c_type = ''public'',
            c_created_by = None, c_created_at = ''09:00'', c_updated_at = ''09:00''\<rparr>]\<rparr>))))
   = [\<lparr>c_id = ''c1'', c_name = ''general'', c_description = None, c_type = ''public'',
       c_created_by = None, c_created_at = ''09:00'', c_updated_at = ''09:00''\<rparr>,
      \<lparr>c_id = ''c2'', c_name = ''dev'', c_description = None, c_type = ''public'',
       c_created_by = Some ''alice'', c_created_at = ''10:00'', c_updated_at = ''10:00''\<rparr>]
   \<and> channels (store (snd (run
       (createChannel True ''dev'' None None (Resolves (Some ''alice''))
          (Resolves (Success
             \<lparr>c_id = ''c2'', c_name = ''dev'', c_description = None, c_type = ''public'',
              c_created_by = Some ''alice'', c_created_at = ''10:00'', c_updated_at = ''10:00''\<rparr>)))
       (initial_chat_state\<lparr>channels :=
          [\<lparr>c_id = ''c1'', c_name = ''general'', c_description = None, c_type = ''public'',
            c_created_by = None, c_created_at = ''09:00'', c_updated_at = ''09:00''\<rparr>]\<rparr>))))
   \<noteq> \<lparr>c_id = ''c2'', c_name = ''dev'', c_description = None, c_type = ''public'',
       c_created_by = Some ''alice'', c_created_at = ''10:00'', c_updated_at = ''10:00''\<rparr>
     # channels (initial_chat_state\<lparr>channels :=
          [\<lparr>c_id = ''c1'', c_name = ''general'', c_description = None, c_type = ''public'',
            c_created_by = None, c_created_at = ''09:00'', c_updated_at = ''09:00''\<rparr>]\<rparr>)"
  by (simp add: createChannel_def prog_defs Let_def initial_chat_state_def)

text \<open>
  C8, amended. A successful \<open>createNote\<close> of the notes store and of the personal notes
  store puts the new entity at the head of the cache and leaves the rest of the cache
  as it was, in demo mode, where it always succeeds and the entity is built locally, and
  in connected mode, where the entity is the row the gateway returned. The personal notes
  store returns the entity with the result; the notes store returns only the \<open>error\<close>
  field. A successful \<open>createChannel\<close> puts the row the gateway returned at the tail of
  the cache in connected mode, changes nothing in demo mode, and returns only the
  \<open>error\<close> field.
\<close>

theorem create_places_new_entity:
  "run (createNote False fr note ins usr ntf) s =
     (Inr None, \<lparr>store = s\<lparr>notes := demo_note fr note # notes s\<rparr>, effects = []\<rparr>)
   \<and> (fst (run (createNote True fr note ins usr ntf) s) = Inr None \<longrightarrow>
        (\<exists>d. ins = Resolves (Success d)
           \<and> store (snd (run (createNote True fr note ins usr ntf) s)) =
               s\<lparr>notes := d # notes s\<rparr>))
   \<and> run (createPersonalNote False fr title c usr insp) p =
       (Inr \<lparr>cr_error = None,
             cr_note = Some (demo_personal_note fr title (case c of None \<Rightarrow> [] | Some x \<Rightarrow> x))\<rparr>,
        \<lparr>store = p\<lparr>pnotes := demo_personal_note fr title (case c of None \<Rightarrow> [] | Some x \<Rightarrow> x)
                               # pnotes p\<rparr>,
         effects = []\<rparr>)
   \<and> (\<forall>res. fst (run (createPersonalNote True fr title c usr insp) p) = Inr res
          \<and> cr_error res = None \<longrightarrow>
        (\<exists>d. insp = Resolves (Success d) \<and> cr_note res = Some d
           \<and> store (snd (run (createPersonalNote True fr title c usr insp) p)) =
               p\<lparr>pnotes := d # pnotes p\<rparr>))
   \<and> run (createChannel False name description type_arg usr insc) ch =
       (Inr None, \<lparr>store = ch, effects = []\<rparr>)
   \<and> (fst (run (createChannel True name description type_arg usr insc) ch) = Inr None \<longrightarrow>
        (\<exists>d. insc = Resolves (Success d)
           \<and> store (snd (run (createChannel True name description type_arg usr insc) ch)) =
               ch\<lparr>channels := channels ch @ [d]\<rparr>))"
  using createNote_demo [of fr "note" ins usr ntf s]
    createNote_success [of fr "note" ins usr ntf s]
    createPersonalNote_demo [of fr title c usr insp p]
    createPersonalNote_success [of fr title c usr insp p]
    createChannel_demo [of name description type_arg usr insc ch]
    createChannel_success [of name description type_arg usr insc ch]
  by blast

theorem create_places_new_entity_witness:
  "fst (run (createNote True
          \<lparr>generated_id = ''demo-1'', created_now = ''10:00'', updated_now = ''10:00''\<rparr>
          [''title'' \<mapsto> Str ''Report'']
          (Resolves (Success [''id'' \<mapsto> Str ''n2'', ''title'' \<mapsto> Str ''Report'']))
          (Resolves (Some ''alice'')) (Resolves () :: unit awaited))
        (initial_notes_state\<lparr>notes := [ [''id'' \<mapsto> Str ''n1''] ]\<rparr>)) = Inr None
   \<and> notes (store (snd (run (createNote True
          \<lparr>generated_id = ''demo-1'', created_now = ''10:00'', updated_now = ''10:00''\<rparr>
          [''title'' \<mapsto> Str ''Report'']
          (Resolves (Success [''id'' \<mapsto> Str ''n2'', ''title'' \<mapsto> Str ''Report'']))
          (Resolves (Some ''alice'')) (Resolves () :: unit awaited))
        (initial_notes_state\<lparr>notes := [ [''id'' \<mapsto> Str ''n1''] ]\<rparr>))))
       = [ [''id'' \<mapsto> Str ''n2'', ''title'' \<mapsto> Str ''Report''], [''id'' \<mapsto> Str ''n1''] ]
   \<and> fst (run (createPersonalNote True
          \<lparr>generated_id = ''demo-1'', created_now = ''10:00'', updated_now = ''10:00''\<rparr>
          ''Ideas'' None (Resolves (Some ''alice''))
          (Resolves (Success
             \<lparr>pn_id = ''p1'', pn_title = ''Ideas'', pn_content = Some [], owner_id = Some ''alice'',
              is_shared = False, pn_created_at = ''10:00'', pn_updated_at = ''10:00''\<rparr>)))
        initial_personal_state)
       = Inr \<lparr>cr_error = None, cr_note = Some
             \<lparr>pn_id = ''p1'', pn_title = ''Ideas'', pn_content = Some [], owner_id = Some ''alice'',
              is_shared = False, pn_created_at = ''10:00'', pn_updated_at = ''10:00''\<rparr>\<rparr>
   \<and> pnotes (store (snd (run (createPersonalNote True
          \<lparr>generated_id = ''demo-1'', created_now = ''10:00'', updated_now = ''10:00''\<rparr>
          ''Ideas'' None (Resolves (Some ''alice''))
          (Resolves (Success
             \<lparr>pn_id = ''p1'', pn_title = ''Ideas'', pn_content = Some [], owner_id = Some ''alice'',
              is_shared = False, pn_created_at = ''10:00'', pn_updated_at = ''10:00''\<rparr>)))
        initial_personal_state)))
       = [\<lparr>pn_id = ''p1'', pn_title = ''Ideas'', pn_content = Some [], owner_id = Some ''alice'',
         is_shared = False, pn_created_at = ''10:00'', pn_updated_at = ''10:00''\<rparr>]
   \<and> fst (run (createChannel True ''dev'' None None (Resolves (Some ''alice''))
          (Resolves (Success
             \<lparr>c_id = ''c2'', c_name = ''dev'', c_description = None, c_type = ''public'',
              c_created_by = Some ''alice'', c_created_at = ''10:00'', c_updated_at = ''10:00''\<rparr>)))
        initial_chat_state) = Inr None
   \<and> channels (store (snd (run (createChannel True ''dev'' None None (Resolves (Some ''alice''))
          (Resolves (Success
             \<lparr>c_id = ''c2'', c_name = ''dev'', c_description = None, c_type = ''public'',
              c_created_by = Some ''alice'', c_created_at = ''10:00'', c_updated_at = ''10:00''\<rparr>)))
        initial_chat_state)))
       = [\<lparr>c_id = ''c2'', c_name = ''dev'', c_description = None, c_type = ''public'',
         c_created_by = Some ''alice'', c_created_at = ''10:00'', c_updated_at = ''10:00''\<rparr>]"
proof -
  have n: "fst (run (createNote True
          \<lparr>generated_id = ''demo-1'', created_now = ''10:00'', updated_now = ''10:00''\<rparr>
          [''title'' \<mapsto> Str ''Report'']
          (Resolves (Success [''id'' \<mapsto> Str ''n2'', ''title'' \<mapsto> Str ''Report'']))
          (Resolves (Some ''alice'')) (Resolves () :: unit awaited))
        (initial_notes_state\<lparr>notes := [ [''id'' \<mapsto> Str ''n1''] ]\<rparr>)) = Inr None"
    by (simp add: createNote_def prog_defs cleanedNote_def get_prop_def or_else_def)
  have p: "fst (run (createPersonalNote True
          \<lparr>generated_id = ''demo-1'', created_now = ''10:00'', updated_now = ''10:00''\<rparr>
          ''Ideas'' None (Resolves (Some ''alice''))
          (Resolves (Success
             \<lparr>pn_id = ''p1'', pn_title = ''Ideas'', pn_content = Some [], owner_id = Some ''alice'',
              is_shared = False, pn_created_at = ''10:00'', pn_updated_at = ''10:00''\<rparr>)))
        initial_personal_state)
       = Inr \<lparr>cr_error = None, cr_note = Some
             \<lparr>pn_id = ''p1'', pn_title = ''Ideas'', pn_content = Some [], owner_id = Some ''alice'',
              is_shared = False, pn_created_at = ''10:00'', pn_updated_at = ''10:00''\<rparr>\<rparr>"
    by (simp add: createPersonalNote_def prog_defs Let_def)
  have c: "fst (run (createChannel True ''dev'' None None (Resolves (Some ''alice''))
          (Resolves (Success
             \<lparr>c_id = ''c2'', c_name = ''dev'', c_description = None, c_type = ''public'',
              c_created_by = Some ''alice'', c_created_at = ''10:00'', c_updated_at = ''10:00''\<rparr>)))
        initial_chat_state) = Inr None"
    by (simp add: createChannel_def prog_defs Let_def)
  show ?thesis
    using n p c create_places_new_entity
    [where ?fr = "\<lparr>generated_id = ''demo-1'', created_now = ''10:00'', updated_now = ''10:00''\<rparr>"
       and ?note = "[''title'' \<mapsto> Str ''Report'']"
       and ?ins = "Resolves (Success [''id'' \<mapsto> Str ''n2'', ''title'' \<mapsto> Str ''Report''])"
       and ?usr = "Resolves (Some ''alice'')" and ?ntf = "Resolves () :: unit awaited"
       and ?s = "initial_notes_state\<lparr>notes := [ [''id'' \<mapsto> Str ''n1''] ]\<rparr>"
       and ?title = "''Ideas''" and ?c = None
       and ?insp = "Resolves (Success
             \<lparr>pn_id = ''p1'', pn_title = ''Ideas'', pn_content = Some [], owner_id = Some ''alice'',
              is_shared = False, pn_created_at = ''10:00'', pn_updated_at = ''10:00''\<rparr>)"
       and ?p = initial_personal_state and ?name = "''dev''" and ?description = None
       and ?type_arg = None
       and ?insc = "Resolves (Success
             \<lparr>c_id = ''c2'', c_name = ''dev'', c_description = None, c_type = ''public'',
              c_created_by = Some ''alice'', c_created_at = ''10:00'', c_updated_at = ''10:00''\<rparr>)"
       and ?ch = initial_chat_state]
    by (auto simp: initial_notes_state_def initial_personal_state_def initial_chat_state_def)
qed

section \<open>Filtering\<close>

lemma within_same_month:
  "same_month a b \<Longrightarrow>
   isWithinInterval d (startOfMonth a) (endOfMonth a) =
   isWithinInterval d (startOfMonth b) (endOfMonth b)"
  by (simp add: same_month_def isWithinInterval_def startOfMonth_def endOfMonth_def date_le_def
      split: option.splits)

lemma keeps_same_month: "same_month a b \<Longrightarrow> keeps_expense a f e = keeps_expense b f e"
  by (simp add: keeps_expense_def within_same_month [of a b])

lemma keeps_not_month: "dateFilter f \<noteq> Month \<Longrightarrow> keeps_expense a f e = keeps_expense b f e"
  by (simp add: keeps_expense_def)

lemma push_hits_eq: "push_hits hit result xs acc = acc @ map result (filter hit xs)"
  unfolding push_hits_def by (induction xs arbitrary: acc) auto

lemma parseISO_example:
  "parseISO ''2024-01-15'' = Some \<lparr>year = 2024, month = 1, day = 15, ms = 0\<rparr>"
  by (simp add: parseISO_def digit_val_def days_in_month_def)

text \<open>
  C9, as the claim states it, fails for the filter of the expenses: with the date filter
  on the current month, which is the state the page starts in, the filter reads the clock.
  The same cache and the same filter state select an expense of January when the clock
  is in January and do not select it when the clock is in February.
\<close>

theorem filteredExpenses_reads_clock:
  "filteredExpenses \<lparr>year = 2024, month = 1, day = 20, ms = 0\<rparr>
     [\<lparr>e_id = ''e1'', e_description = ''Hosting'', e_vendor = None, e_category_id = None,
       e_status = ''pending'', expense_date = ''2024-01-15'', e_amount = 100\<rparr>]
     initial_expense_filter
   = [\<lparr>e_id = ''e1'', e_description = ''Hosting'', e_vendor = None, e_category_id = None,
       e_status = ''pending'', expense_date = ''2024-01-15'', e_amount = 100\<rparr>]
   \<and> filteredExpenses \<lparr>year = 2024, month = 2, day = 2, ms = 0\<rparr>
     [\<lparr>e_id = ''e1'', e_description = ''Hosting'', e_vendor = None, e_category_id = None,
       e_status = ''pending'', expense_date = ''2024-01-15'', e_amount = 100\<rparr>]
     initial_expense_filter
   = []"
  by (simp add: filteredExpenses_def keeps_expense_def initial_expense_filter_def truthy_opt_def
      parseISO_example isWithinInterval_def startOfMonth_def endOfMonth_def date_le_def
      days_in_month_def)

text \<open>
  C9, amended. The filter of the expenses selects the same expenses in the same order
  from the same cache and the same filter state whenever the date filter is not the
  current month, or the two evaluations read the clock in the same month. The global
  search reads no clock: its result is empty for a blank query and is otherwise the first
  ten of the hits among the notes, then the personal notes, then the meetings, then the
  members, each in the order of its cache.
\<close>

theorem filters_select_same_subset:
  "(dateFilter f \<noteq> Month \<or> same_month now later \<longrightarrow>
      filteredExpenses now expenses f = filteredExpenses later expenses f)
   \<and> performSearch ns ps mts mbs q =
       (if trim q = [] then []
        else take 10
          (map note_result
             (filter (\<lambda>n. str_includes (toLowerCase (nr_title n)) (toLowerCase q)
                          \<or> opt_includes (nr_content n) (toLowerCase q)) ns)
           @ map notepad_result
             (filter (\<lambda>n. str_includes (toLowerCase (pn_title n)) (toLowerCase q)
                          \<or> opt_includes (pn_content n) (toLowerCase q)) ps)
           @ map meeting_result
             (filter (\<lambda>m. str_includes (toLowerCase (mt_title m)) (toLowerCase q)
                          \<or> opt_includes (mt_description m) (toLowerCase q)) mts)
           @ map member_result
             (filter (\<lambda>m. opt_includes (mb_full_name m) (toLowerCase q)
                          \<or> opt_includes (mb_email m) (toLowerCase q)) mbs)))"
proof -
  have "filteredExpenses now expenses f = filteredExpenses later expenses f"
    if "dateFilter f \<noteq> Month \<or> same_month now later"
  proof -
    from that have "keeps_expense now f e = keeps_expense later f e" for e
      using keeps_not_month [of f now e later] keeps_same_month [of now later f e] by auto
    then have "keeps_expense now f = keeps_expense later f"
      by (rule ext)
    then show ?thesis by (simp add: filteredExpenses_def)
  qed
  then show ?thesis
    by (simp add: performSearch_def Let_def push_hits_eq)
qed

theorem filters_select_same_subset_witness:
  "same_month \<lparr>year = 2024, month = 1, day = 20, ms = 0\<rparr>
              \<lparr>year = 2024, month = 1, day = 31, ms = 7200000\<rparr>
   \<and> filteredExpenses \<lparr>year = 2024, month = 1, day = 20, ms = 0\<rparr>
       [\<lparr>e_id = ''e1'', e_description = ''Hosting'', e_vendor = None, e_category_id = None,
         e_status = ''pending'', expense_date = ''2024-01-15'', e_amount = 100\<rparr>]
       initial_expense_filter
     = filteredExpenses \<lparr>year = 2024, month = 1, day = 31, ms = 7200000\<rparr>
       [\<lparr>e_id = ''e1'', e_description = ''Hosting'', e_vendor = None, e_category_id = None,
         e_status = ''pending'', expense_date = ''2024-01-15'', e_amount = 100\<rparr>]
       initial_expense_filter
   \<and> dateFilter (initial_expense_filter\<lparr>dateFilter := All\<rparr>) \<noteq> Month
   \<and> filteredExpenses \<lparr>year = 2024, month = 1, day = 20, ms = 0\<rparr>
       [\<lparr>e_id = ''e1'', e_description = ''Hosting'', e_vendor = None, e_category_id = None,
         e_status = ''pending'', expense_date = ''2024-01-15'', e_amount = 100\<rparr>]
       (initial_expense_filter\<lparr>dateFilter := All\<rparr>)
     = filteredExpenses \<lparr>year = 2024, month = 2, day = 2, ms = 0\<rparr>
       [\<lparr>e_id = ''e1'', e_description = ''Hosting'', e_vendor = None, e_category_id = None,
         e_status = ''pending'', expense_date = ''2024-01-15'', e_amount = 100\<rparr>]
       (initial_expense_filter\<lparr>dateFilter := All\<rparr>)"
  using filters_select_same_subset
    [where ?f = "initial_expense_filter"
       and ?now = "\<lparr>year = 2024, month = 1, day = 20, ms = 0\<rparr>"
       and ?later = "\<lparr>year = 2024, month = 1, day = 31, ms = 7200000\<rparr>"
       and ?expenses = "[\<lparr>e_id = ''e1'', e_description = ''Hosting'', e_vendor = None, e_category_id = None, e_status = ''pending'', expense_date = ''2024-01-15'', e_amount = 100\<rparr>]"
       and ?ns = "[]" and ?ps = "[]" and ?mts = "[]" and ?mbs = "[]" and ?q = "''hosting''"]
    filters_select_same_subset
    [where ?f = "initial_expense_filter\<lparr>dateFilter := All\<rparr>"
       and ?now = "\<lparr>year = 2024, month = 1, day = 20, ms = 0\<rparr>"
       and ?later = "\<lparr>year = 2024, month = 2, day = 2, ms = 0\<rparr>"
       and ?expenses = "[\<lparr>e_id = ''e1'', e_description = ''Hosting'', e_vendor = None, e_category_id = None, e_status = ''pending'', expense_date = ''2024-01-15'', e_amount = 100\<rparr>]"
       and ?ns = "[]" and ?ps = "[]" and ?mts = "[]" and ?mbs = "[]" and ?q = "''hosting''"]
  by (simp add: same_month_def initial_expense_filter_def)

end
